theory Spec2Isabelle
  imports Main "HOL-Library.Sublist"
begin

section \<open>JavaScript values used by the scraper\<close>

text \<open>
  Every \<^verbatim>\<open>throw new Error('...')\<close> of the source is a value \<open>Error msg\<close> carrying the
  source's message; a property read on \<^verbatim>\<open>undefined\<close> or \<^verbatim>\<open>null\<close> and a call of something
  that is not a function are \<open>TypeError\<close>; a rejection of the HTTP client that the source
  does not catch is \<open>AxiosError\<close>. A function that can throw returns \<open>error + 'a\<close>, with
  \<open>Inl\<close> the thrown value.
\<close>

datatype error = Error string | TypeError | AxiosError

text \<open>The names the specification gives to the messages of the source.\<close>

definition InvalidSlug :: error where
  "InvalidSlug = Error ''Invalid company slug''"

definition SessionAcquisitionFailed :: error where
  "SessionAcquisitionFailed = Error ''Failed getting company ID''"

definition LoginFailed :: error where
  "LoginFailed = Error ''Failed to log in, bad username/password?''"

definition LanguageMismatch :: error where
  "LanguageMismatch = Error ''Response has an unexpected language''"

definition LocaleNotFound :: error where
  "LocaleNotFound = Error ''Failed to match the locale''"

definition FlagParseError :: error where
  "FlagParseError = Error ''Failed to parse flag image''"

definition TenderRemovalFailed :: error where
  "TenderRemovalFailed = Error ''Error removing tender''"

text \<open>
  A JavaScript number as the scraper meets it: the result of \<^verbatim>\<open>parseInt\<close>, an integer or
  \<^verbatim>\<open>NaN\<close>. Integers are kept exact (the rounding of doubles beyond \<open>2^53\<close> is not
  represented).
\<close>

datatype jsnum = Num int | NaN

text \<open>Truthiness, as \<^verbatim>\<open>if (!x)\<close> tests it, of an optional string and of an optional number.\<close>

definition truthy :: "string option \<Rightarrow> bool" where
  "truthy v = (case v of None \<Rightarrow> False | Some s \<Rightarrow> s \<noteq> [])"

definition truthy_num :: "jsnum option \<Rightarrow> bool" where
  "truthy_num v = (case v of None \<Rightarrow> False | Some NaN \<Rightarrow> False | Some (Num n) \<Rightarrow> n \<noteq> 0)"

subsection \<open>String primitives\<close>

text \<open>
  Strings are lists of 8-bit characters read as the code points 0 to 255. The white space
  of \<^verbatim>\<open>String.prototype.trim\<close> and of \<^verbatim>\<open>parseInt\<close> in that range: TAB, LF, VT, FF, CR,
  SP and NBSP. The line terminators (which the \<^verbatim>\<open>.\<close> of a regular expression does not
  match) in that range: LF and CR.
\<close>

definition js_whitespace :: "char \<Rightarrow> bool" where
  "js_whitespace c = (c \<in> set [CHR 0x09, CHR 0x0A, CHR 0x0B, CHR 0x0C, CHR 0x0D, CHR 0x20, CHR 0xA0])"

definition line_terminator :: "char \<Rightarrow> bool" where
  "line_terminator c = (c = CHR 0x0A \<or> c = CHR 0x0D)"

definition trim :: "string \<Rightarrow> string" where
  "trim s = rev (dropWhile js_whitespace (rev (dropWhile js_whitespace s)))"

text \<open>\<^verbatim>\<open>s.substr(n)\<close> with \<open>n \<ge> 0\<close>.\<close>

definition substr :: "nat \<Rightarrow> string \<Rightarrow> string" where
  "substr n s = drop n s"

text \<open>
  \<^verbatim>\<open>s.replace(pat, rep)\<close> with a string pattern: only the first occurrence of \<open>pat\<close> is
  replaced. Every call of the source passes \<^verbatim>\<open>''\<close> as replacement, so the \<^verbatim>\<open>$\<close> sequences
  of a replacement string never occur.
\<close>

fun replace :: "string \<Rightarrow> string \<Rightarrow> string \<Rightarrow> string" where
  "replace [] pat rep = (if pat = [] then rep else [])"
| "replace (c # cs) pat rep =
     (if prefix pat (c # cs) then rep @ drop (length pat) (c # cs)
      else c # replace cs pat rep)"

text \<open>\<^verbatim>\<open>s.includes(pat)\<close>.\<close>

fun js_includes :: "string \<Rightarrow> string \<Rightarrow> bool" where
  "js_includes [] pat = (pat = [])"
| "js_includes (c # cs) pat = (prefix pat (c # cs) \<or> js_includes cs pat)"

text \<open>\<^verbatim>\<open>s.split(sep)[0]\<close> for a non-empty separator: the text before its first occurrence.\<close>

fun split_head :: "string \<Rightarrow> string \<Rightarrow> string" where
  "split_head sep [] = []"
| "split_head sep (c # cs) = (if prefix sep (c # cs) then [] else c # split_head sep cs)"

text \<open>\<^verbatim>\<open>s.split(c)\<close> for a one-character separator.\<close>

fun split :: "char \<Rightarrow> string \<Rightarrow> string list" where
  "split sep [] = [[]]"
| "split sep (c # cs) =
     (if c = sep then [] # split sep cs
      else (case split sep cs of [] \<Rightarrow> [[c]] | x # xs \<Rightarrow> (c # x) # xs))"

text \<open>\<^verbatim>\<open>xs.join(sep)\<close>.\<close>

fun join :: "string \<Rightarrow> string list \<Rightarrow> string" where
  "join sep [] = []"
| "join sep [x] = x"
| "join sep (x # y # ys) = x @ sep @ join sep (y # ys)"

subsection \<open>parseInt\<close>

text \<open>
  \<^verbatim>\<open>parseInt(s)\<close> without a radix: leading white space is skipped, a sign is read, a
  \<^verbatim>\<open>0x\<close> or \<^verbatim>\<open>0X\<close> prefix selects radix 16, the longest run of digits is converted and
  whatever follows is ignored; no digit at all gives \<^verbatim>\<open>NaN\<close>.
\<close>

definition digit_table :: "(char \<times> nat) list" where
  "digit_table =
     [(CHR ''0'', 0), (CHR ''1'', 1), (CHR ''2'', 2), (CHR ''3'', 3), (CHR ''4'', 4),
      (CHR ''5'', 5), (CHR ''6'', 6), (CHR ''7'', 7), (CHR ''8'', 8), (CHR ''9'', 9),
      (CHR ''a'', 10), (CHR ''b'', 11), (CHR ''c'', 12), (CHR ''d'', 13), (CHR ''e'', 14),
      (CHR ''f'', 15), (CHR ''A'', 10), (CHR ''B'', 11), (CHR ''C'', 12), (CHR ''D'', 13),
      (CHR ''E'', 14), (CHR ''F'', 15)]"

definition digit_val :: "nat \<Rightarrow> char \<Rightarrow> nat option" where
  "digit_val radix c =
     (case map_of digit_table c of
        None \<Rightarrow> None
      | Some d \<Rightarrow> if d < radix then Some d else None)"

definition is_digit :: "nat \<Rightarrow> char \<Rightarrow> bool" where
  "is_digit radix c = (digit_val radix c \<noteq> None)"

definition digits_value :: "nat \<Rightarrow> string \<Rightarrow> int" where
  "digits_value radix ds =
     foldl (\<lambda>acc c. acc * int radix + int (case digit_val radix c of None \<Rightarrow> 0 | Some d \<Rightarrow> d)) 0 ds"

definition parseInt :: "string \<Rightarrow> jsnum" where
  "parseInt s =
     (let s1 = dropWhile js_whitespace s;
          neg = prefix ''-'' s1;
          s2 = (if prefix ''-'' s1 \<or> prefix ''+'' s1 then drop 1 s1 else s1);
          hex = (prefix ''0x'' s2 \<or> prefix ''0X'' s2);
          radix = (if hex then 16 else 10);
          s3 = (if hex then drop 2 s2 else s2);
          z = takeWhile (is_digit radix) s3
      in if z = [] then NaN
         else Num ((if neg then - 1 else 1) * digits_value radix z))"

subsection \<open>The regular expressions of the source\<close>

text \<open>
  Every regular expression of the source has the shape: a literal, the lazy group
  \<^verbatim>\<open>(.*?)\<close>, a continuation. \<open>lazy_group\<close> is the group at a fixed starting point: the
  shortest run of characters other than line terminators after which the continuation
  matches. \<open>regex_search\<close> tries the starting points from left to right, as an unanchored
  \<^verbatim>\<open>String.prototype.match\<close> does. The value is the text of group 1, \<open>None\<close> for the
  \<^verbatim>\<open>null\<close> of a failed match.
\<close>

fun lazy_group :: "(string \<Rightarrow> bool) \<Rightarrow> string \<Rightarrow> string option" where
  "lazy_group cont [] = (if cont [] then Some [] else None)"
| "lazy_group cont (c # cs) =
     (if cont (c # cs) then Some []
      else if line_terminator c then None
      else map_option ((#) c) (lazy_group cont cs))"

fun regex_search :: "(string \<Rightarrow> 'a option) \<Rightarrow> string \<Rightarrow> 'a option" where
  "regex_search m [] = m []"
| "regex_search m (c # cs) =
     (case m (c # cs) of Some r \<Rightarrow> Some r | None \<Rightarrow> regex_search m cs)"

definition match_group :: "string \<Rightarrow> (string \<Rightarrow> bool) \<Rightarrow> string \<Rightarrow> string option" where
  "match_group lit cont s =
     regex_search (\<lambda>t. if prefix lit t then lazy_group cont (drop (length lit) t) else None) s"

text \<open>\<^verbatim>\<open>/ikoni_(.*?).gif/\<close>: the dot before \<^verbatim>\<open>gif\<close> is not escaped and matches any character
  that is not a line terminator.\<close>

definition dot_gif :: "string \<Rightarrow> bool" where
  "dot_gif u = (case u of [] \<Rightarrow> False | c # r \<Rightarrow> \<not> line_terminator c \<and> prefix ''gif'' r)"

definition match_ikoni_gif :: "string \<Rightarrow> string option" where
  "match_ikoni_gif s = match_group ''ikoni_'' dot_gif s"

text \<open>\<^verbatim>\<open>/images\/(.*?)_ikoni/\<close>\<close>

definition match_images_ikoni :: "string \<Rightarrow> string option" where
  "match_images_ikoni s = match_group ''images/'' (prefix ''_ikoni'') s"

text \<open>\<^verbatim>\<open>/TP=(.*?);/\<close>, \<^verbatim>\<open>/SessionId_TP=(.*?);/\<close>, \<^verbatim>\<open>/TarjPalv=(.*?);/\<close> and
  \<^verbatim>\<open>/culture=(.*?)&Expires/\<close>, applied to the joined \<^verbatim>\<open>Set-Cookie\<close> headers.\<close>

definition match_TP :: "string \<Rightarrow> string option" where
  "match_TP s = match_group ''TP='' (prefix '';'') s"

definition match_SessionId_TP :: "string \<Rightarrow> string option" where
  "match_SessionId_TP s = match_group ''SessionId_TP='' (prefix '';'') s"

definition match_TarjPalv :: "string \<Rightarrow> string option" where
  "match_TarjPalv s = match_group ''TarjPalv='' (prefix '';'') s"

definition match_culture :: "string \<Rightarrow> string option" where
  "match_culture s = match_group ''culture='' (prefix ''&Expires'') s"

text \<open>\<^verbatim>\<open>/__cultureInfo = {"name":"(.*?)","/\<close>\<close>

definition match_cultureInfo :: "string \<Rightarrow> string option" where
  \<open>match_cultureInfo s = match_group ''__cultureInfo = {"name":"'' (prefix ''","'') s\<close>

subsection \<open>querystring.parse\<close>

text \<open>
  \<^verbatim>\<open>querystring.parse(s)\<close> of Node: the string is cut at every \<^verbatim>\<open>&\<close>, at most 1000
  segments are read, empty segments are skipped, and each segment is cut at its first
  \<^verbatim>\<open>=\<close> into a key and a value, both decoded. The decoder (\<^verbatim>\<open>querystring.unescape\<close>:
  \<^verbatim>\<open>+\<close> and percent escapes) belongs to the platform and is a parameter. A key that
  occurs several times holds an array, whose \<^verbatim>\<open>toString()\<close> joins the values with commas;
  \<^verbatim>\<open>toString()\<close> on a missing key is a \<open>TypeError\<close>.
\<close>

definition qs_pairs :: "(string \<Rightarrow> string) \<Rightarrow> string \<Rightarrow> (string \<times> string) list" where
  "qs_pairs unesc s =
     map (\<lambda>seg. (unesc (split_head ''='' seg),
                 unesc (drop (Suc (length (split_head ''='' seg))) seg)))
         (filter (\<lambda>seg. seg \<noteq> []) (take 1000 (split CHR ''&'' s)))"

definition qs_get :: "(string \<Rightarrow> string) \<Rightarrow> string \<Rightarrow> string \<Rightarrow> error + string" where
  "qs_get unesc s key =
     (case map snd (filter (\<lambda>kv. fst kv = key) (qs_pairs unesc s)) of
        [] \<Rightarrow> Inl TypeError
      | v # vs \<Rightarrow> Inr (join '','' (v # vs)))"

section \<open>The document tree and the selections of the HTML parser\<close>

text \<open>
  The parsed document as the HTML parser (cheerio) hands it over: text nodes and elements
  with a tag name, attributes in source order and children. Comments are not represented.
\<close>

datatype node = Text string | Element string "(string \<times> string) list" "node list"

text \<open>All nodes below and including a node, in document order, each with the tag names and
  attributes of its ancestors (nearest first).\<close>

type_synonym ancestor = "string \<times> (string \<times> string) list"

fun walk :: "ancestor list \<Rightarrow> node \<Rightarrow> (ancestor list \<times> node) list" where
  "walk anc (Text s) = [(anc, Text s)]"
| "walk anc (Element t a cs) =
     (anc, Element t a cs) # concat (map (walk ((t, a) # anc)) cs)"

definition descendants :: "node \<Rightarrow> node list" where
  "descendants n = map snd (tl (walk [] n))"

fun text_of :: "node \<Rightarrow> string" where
  "text_of (Text s) = s"
| "text_of (Element t a cs) = concat (map text_of cs)"

fun is_tag :: "string \<Rightarrow> node \<Rightarrow> bool" where
  "is_tag t (Text s) = False"
| "is_tag t (Element t' a cs) = (t' = t)"

text \<open>The value of an attribute, \<open>None\<close> for \<^verbatim>\<open>undefined\<close>. An attribute written with an
  empty value is present and holds the empty string.\<close>

fun attr :: "string \<Rightarrow> node \<Rightarrow> string option" where
  "attr name (Text s) = None"
| "attr name (Element t a cs) = map_of a name"

definition html_space :: "char \<Rightarrow> bool" where
  "html_space c = (c \<in> set [CHR 0x09, CHR 0x0A, CHR 0x0C, CHR 0x0D, CHR 0x20])"

fun tokens_acc :: "string \<Rightarrow> string \<Rightarrow> string list" where
  "tokens_acc cur [] = (if cur = [] then [] else [rev cur])"
| "tokens_acc cur (c # cs) =
     (if html_space c then (if cur = [] then tokens_acc [] cs else rev cur # tokens_acc [] cs)
      else tokens_acc (c # cur) cs)"

definition has_class :: "string \<Rightarrow> node \<Rightarrow> bool" where
  "has_class c n = (case attr ''class'' n of None \<Rightarrow> False | Some v \<Rightarrow> c \<in> set (tokens_acc [] v))"

text \<open>
  A selection is the list of its elements in document order. \<open>select\<close> is \<^verbatim>\<open>$(selector)\<close> on
  the whole document, \<open>find\<close> is \<^verbatim>\<open>.find(selector)\<close> (the source applies it to selections of
  at most one element), \<open>nth_sel row i\<close> is \<^verbatim>\<open>$(row[i])\<close>, which is the empty selection when
  the index is out of range, \<open>sel_text\<close> is \<^verbatim>\<open>.text()\<close> and \<open>sel_attr\<close> is \<^verbatim>\<open>.attr(name)\<close>, which
  reads the first element.
\<close>

definition select :: "(ancestor list \<Rightarrow> node \<Rightarrow> bool) \<Rightarrow> node \<Rightarrow> node list" where
  "select P doc = map snd (filter (\<lambda>(anc, n). P anc n) (walk [] doc))"

definition find :: "(node \<Rightarrow> bool) \<Rightarrow> node list \<Rightarrow> node list" where
  "find P sel = concat (map (\<lambda>n. filter P (descendants n)) sel)"

definition nth_sel :: "node list \<Rightarrow> nat \<Rightarrow> node list" where
  "nth_sel row i = (if i < length row then [row ! i] else [])"

definition sel_text :: "node list \<Rightarrow> string" where
  "sel_text sel = concat (map text_of sel)"

definition sel_attr :: "string \<Rightarrow> node list \<Rightarrow> string option" where
  "sel_attr name sel = (case sel of [] \<Rightarrow> None | n # _ \<Rightarrow> attr name n)"

text \<open>The selectors of the source.\<close>

definition child_of_tr :: "ancestor list \<Rightarrow> node \<Rightarrow> bool" where
  \<comment> \<open>\<^verbatim>\<open>tr > td\<close>\<close>
  "child_of_tr anc n = (is_tag ''td'' n \<and> (case anc of [] \<Rightarrow> False | p # _ \<Rightarrow> fst p = ''tr''))"

definition table_rows :: "string \<Rightarrow> ancestor list \<Rightarrow> node \<Rightarrow> bool" where
  \<comment> \<open>\<^verbatim>\<open>#ident > tbody > tr\<close>\<close>
  "table_rows ident anc n =
     (is_tag ''tr'' n \<and>
      (case anc of
         p # g # _ \<Rightarrow> fst p = ''tbody'' \<and> map_of (snd g) ''id'' = Some ident
       | _ \<Rightarrow> False))"

definition by_id :: "string \<Rightarrow> ancestor list \<Rightarrow> node \<Rightarrow> bool" where
  \<comment> \<open>\<^verbatim>\<open>#ident\<close>\<close>
  "by_id ident anc n = (attr ''id'' n = Some ident)"

definition attr_equals :: "string \<Rightarrow> string \<Rightarrow> string \<Rightarrow> ancestor list \<Rightarrow> node \<Rightarrow> bool" where
  \<comment> \<open>\<^verbatim>\<open>tag[name="v"]\<close>\<close>
  "attr_equals t name v anc n = (is_tag t n \<and> attr name n = Some v)"

definition attr_contains :: "string \<Rightarrow> string \<Rightarrow> string \<Rightarrow> ancestor list \<Rightarrow> node \<Rightarrow> bool" where
  \<comment> \<open>\<^verbatim>\<open>tag[name*="v"]\<close> with a non-empty \<open>v\<close>\<close>
  "attr_contains t name v anc n =
     (is_tag t n \<and> (case attr name n of None \<Rightarrow> False | Some w \<Rightarrow> js_includes w v))"

text \<open>
  \<^verbatim>\<open>.css(prop)\<close>: the style attribute of the first element is trimmed and cut at every
  \<^verbatim>\<open>;\<close>; a declaration without a colon, or with the colon first or last, is skipped; name
  and value are trimmed; a later declaration of the same name wins.
\<close>

definition style_decl :: "string \<Rightarrow> (string \<times> string) option" where
  "style_decl str =
     (let n = length (split_head '':'' str)
      in if \<not> js_includes str '':'' \<or> n < 1 \<or> n = length str - 1 then None
         else Some (trim (take n str), trim (drop (Suc n) str)))"

definition style_parse :: "string option \<Rightarrow> (string \<times> string) list" where
  "style_parse styles =
     (let s = trim (case styles of None \<Rightarrow> [] | Some v \<Rightarrow> v)
      in if s = [] then [] else List.map_filter style_decl (split CHR '';'' s))"

definition sel_css :: "string \<Rightarrow> node list \<Rightarrow> string option" where
  "sel_css prop sel =
     (case sel of [] \<Rightarrow> None | n # _ \<Rightarrow> map_of (rev (style_parse (attr ''style'' n))) prop)"

section \<open>The HTTP client and the other collaborators\<close>

text \<open>
  A response as the source reads it: the status, the \<^verbatim>\<open>Location\<close> header, the
  \<^verbatim>\<open>Set-Cookie\<close> headers (\<open>None\<close> when the header is absent) and the body. A request ends
  with a response or without one (\<open>NoReply\<close>: the network failed). The client (axios) fulfils
  the promise when the status is in the range 200 to 299 and rejects it otherwise; with
  \<^verbatim>\<open>maxRedirects: 0\<close> a redirect is handed over as it is, and so rejected. The requests
  themselves (URLs, cookies, form fields) are not represented: each function takes the
  replies to the requests it sends, in the order it sends them.
\<close>

record response =
  status :: nat
  location :: "string option"
  set_cookie :: "string list option"
  data :: string

datatype reply = Reply response | NoReply

definition fulfilled :: "response \<Rightarrow> bool" where
  "fulfilled r = (200 \<le> status r \<and> status r < 300)"

text \<open>
  The collaborators outside the repository: the HTML parser (\<^verbatim>\<open>cheerio.load\<close>), the
  serialiser behind \<^verbatim>\<open>.html()\<close>, the decoder of \<^verbatim>\<open>querystring\<close>, and the date library
  (\<^verbatim>\<open>zonedTimeToUtc(parse(date, format, new Date()), 'Europe/Helsinki')\<close>, which may throw).
  \<open>'d\<close> is the type of \<^verbatim>\<open>Date\<close> objects.
\<close>

record 'd env =
  load :: "string \<Rightarrow> node"
  html_of :: "node \<Rightarrow> string"
  unescape :: "string \<Rightarrow> string"
  zoned_parse :: "string \<Rightarrow> string \<Rightarrow> error + 'd"

text \<open>
  \<^verbatim>\<open>response.data\<close>. The client is axios 0.21.1, whose default response transform tries
  \<^verbatim>\<open>JSON.parse\<close> on the body: a body that is valid JSON is handed over parsed, any other body
  as the string it is. \<^verbatim>\<open>JSON.parse\<close> belongs to the platform and is a parameter, with \<open>None\<close>
  for a body that is not JSON; the value of a number plays no part and is not kept. The
  pages that the other functions read are HTML, which is not JSON, so that there
  \<^verbatim>\<open>response.data\<close> is the body.
\<close>

datatype json =
  JNull | JBool bool | JNumber | JString string | JArray "json list"
  | JObject "(string \<times> json) list"

definition response_data :: "(string \<Rightarrow> json option) \<Rightarrow> response \<Rightarrow> json" where
  "response_data JSON_parse r =
     (case JSON_parse (data r) of None \<Rightarrow> JString (data r) | Some v \<Rightarrow> v)"

text \<open>
  \<^verbatim>\<open>x.includes(pat)\<close> on such a value: a search in a string, a membership test on an array
  (only an element that is the same string is equal to \<open>pat\<close>), and a \<open>TypeError\<close> on
  \<^verbatim>\<open>null\<close>, a boolean, a number or an object, none of which has a function \<^verbatim>\<open>includes\<close>.
\<close>

definition data_includes :: "json \<Rightarrow> string \<Rightarrow> error + bool" where
  "data_includes v pat =
     (case v of
        JString s \<Rightarrow> Inr (js_includes s pat)
      | JArray xs \<Rightarrow> Inr (JString pat \<in> set xs)
      | _ \<Rightarrow> Inl TypeError)"

text \<open>The promise of a request made with \<^verbatim>\<open>maxRedirects: 0\<close> is rejected, so that its
  \<^verbatim>\<open>.catch\<close> handler runs.\<close>

definition rejected :: "reply \<Rightarrow> bool" where
  "rejected rp = (case rp of NoReply \<Rightarrow> True | Reply r \<Rightarrow> \<not> fulfilled r)"

section \<open>Sessions and the utilities\<close>

record session =
  uuid :: string
  session_id :: string
  token :: "string option"

datatype Language = Fi | Sv | En | Da

fun language_tag :: "Language \<Rightarrow> string" where
  "language_tag Fi = ''fi-FI''"
| "language_tag Sv = ''sv-SE''"
| "language_tag En = ''en-GB''"
| "language_tag Da = ''da-DK''"

definition index_url :: string where
  "index_url = ''https://tarjouspalvelu.fi/Default/Index''"

subsection \<open>companySlugToId\<close>

text \<open>
  The \<^verbatim>\<open>.catch\<close> handler of the HEAD request, the same in both versions of the utilities:
  it throws on the index page and otherwise assigns \<^verbatim>\<open>id\<close>. Reading \<^verbatim>\<open>headers\<close> without a
  response, \<^verbatim>\<open>substr\<close> without a \<^verbatim>\<open>Location\<close> header and \<^verbatim>\<open>toString\<close> without a
  parameter \<^verbatim>\<open>p\<close> are type errors.
\<close>

definition companySlugToId_catch :: "(string \<Rightarrow> string) \<Rightarrow> reply \<Rightarrow> error + jsnum" where
  "companySlugToId_catch unesc rp =
     (case rp of
        NoReply \<Rightarrow> Inl TypeError
      | Reply r \<Rightarrow>
          if location r = Some index_url then Inl InvalidSlug
          else (case location r of
                  None \<Rightarrow> Inl TypeError
                | Some loc \<Rightarrow>
                    (case qs_get unesc (substr 14 loc) ''p'' of
                       Inl e \<Rightarrow> Inl e
                     | Inr v \<Rightarrow> Inr (parseInt v))))"

text \<open>The variable \<^verbatim>\<open>id\<close> after the awaited request: \<open>None\<close> (\<^verbatim>\<open>undefined\<close>) when the
  promise was fulfilled and the handler did not run.\<close>

definition slug_id :: "(string \<Rightarrow> string) \<Rightarrow> reply \<Rightarrow> error + jsnum option" where
  "slug_id unesc rp =
     (if rejected rp
      then (case companySlugToId_catch unesc rp of Inl e \<Rightarrow> Inl e | Inr n \<Rightarrow> Inr (Some n))
      else Inr None)"

text \<open>The version that ends with \<^verbatim>\<open>if (!id) throw new Error('Failed getting company ID')\<close>.\<close>

definition companySlugToId_part0 :: "(string \<Rightarrow> string) \<Rightarrow> reply \<Rightarrow> error + jsnum" where
  "companySlugToId_part0 unesc rp =
     (case slug_id unesc rp of
        Inl e \<Rightarrow> Inl e
      | Inr v \<Rightarrow>
          if \<not> truthy_num v then Inl SessionAcquisitionFailed
          else (case v of None \<Rightarrow> Inl SessionAcquisitionFailed | Some n \<Rightarrow> Inr n))"

text \<open>The version that declares \<^verbatim>\<open>let id!: number\<close> and returns it unchecked: the value
  returned may be \<^verbatim>\<open>undefined\<close> (\<open>None\<close>) or \<^verbatim>\<open>NaN\<close>.\<close>

definition companySlugToId_part1 :: "(string \<Rightarrow> string) \<Rightarrow> reply \<Rightarrow> error + jsnum option" where
  "companySlugToId_part1 unesc rp = slug_id unesc rp"

subsection \<open>getSession\<close>

definition getSession_catch :: "(string \<Rightarrow> string) \<Rightarrow> reply \<Rightarrow> error + string \<times> string" where
  "getSession_catch unesc rp =
     (case rp of
        NoReply \<Rightarrow> Inl TypeError
      | Reply r \<Rightarrow>
          if location r = Some index_url then Inl InvalidSlug
          else (case (case location r of None \<Rightarrow> Inl TypeError | Some loc \<Rightarrow> qs_get unesc loc ''g'') of
                  Inl e \<Rightarrow> Inl e
                | Inr u \<Rightarrow>
                    (case set_cookie r of
                       None \<Rightarrow> Inl TypeError
                     | Some cs \<Rightarrow>
                         (case match_TP (concat cs) of
                            None \<Rightarrow> Inl TypeError
                          | Some i \<Rightarrow> Inr (u, i)))))"

definition getSession_part0 :: "(string \<Rightarrow> string) \<Rightarrow> reply \<Rightarrow> error + session" where
  "getSession_part0 unesc rp =
     (if rejected rp
      then (case getSession_catch unesc rp of
              Inl e \<Rightarrow> Inl e
            | Inr (u, i) \<Rightarrow>
                if u = [] \<or> i = [] then Inl (Error ''Failed getting session'')
                else Inr \<lparr>uuid = u, session_id = i, token = None\<rparr>)
      else Inl (Error ''Failed getting session''))"

subsection \<open>loginToSession\<close>

text \<open>
  The token read from the redirect of the login POST:
  \<^verbatim>\<open>headers['set-cookie'].join('').match(/TarjPalv=(.*?);/)[1]\<close>.
\<close>

definition token_of_cookies :: "response \<Rightarrow> error + string" where
  "token_of_cookies r =
     (case set_cookie r of
        None \<Rightarrow> Inl TypeError
      | Some cs \<Rightarrow> (case match_TarjPalv (concat cs) of None \<Rightarrow> Inl TypeError | Some t \<Rightarrow> Inr t))"

text \<open>
  The login POST with its \<^verbatim>\<open>.catch\<close> handler: the session object after it, or the error
  thrown (every throw happens before the assignment to \<^verbatim>\<open>session.token\<close>). The version with
  a company id has no \<^verbatim>\<open>else\<close> branch in the handler; the version with a slug throws there
  (its test \<^verbatim>\<open>if (!session)\<close> inside the handler never fires, the session being set by then).
\<close>

definition login_post_part1 :: "reply \<Rightarrow> session \<Rightarrow> error + session" where
  "login_post_part1 post s =
     (case post of
        NoReply \<Rightarrow> Inl TypeError
      | Reply r \<Rightarrow>
          if fulfilled r then Inr s
          else if status r = 302
          then (case token_of_cookies r of Inl e \<Rightarrow> Inl e | Inr t \<Rightarrow> Inr (s\<lparr>token := Some t\<rparr>))
          else Inr s)"

definition login_post_part0 :: "reply \<Rightarrow> session \<Rightarrow> error + session" where
  "login_post_part0 post s =
     (case post of
        NoReply \<Rightarrow> Inl TypeError
      | Reply r \<Rightarrow>
          if fulfilled r then Inr s
          else if status r = 302
          then (case token_of_cookies r of Inl e \<Rightarrow> Inl e | Inr t \<Rightarrow> Inr (s\<lparr>token := Some t\<rparr>))
          else Inl LoginFailed)"

text \<open>
  \<^verbatim>\<open>loginToSession(companyId, username, password, session)\<close> takes the replies to its GET
  and to its POST. The first component of the result is what the promise settles with
  (on success the session object itself), the second the passed-in session object as the
  call leaves it.
\<close>

definition loginToSession_part1 :: "reply \<Rightarrow> reply \<Rightarrow> session \<Rightarrow> (error + session) \<times> session" where
  "loginToSession_part1 get post s =
     (if rejected get then (Inl (Error ''Failed to load index page, bad session?''), s)
      else (case login_post_part1 post s of
              Inl e \<Rightarrow> (Inl e, s)
            | Inr s' \<Rightarrow>
                if \<not> truthy (token s') then (Inl LoginFailed, s') else (Inr s', s')))"

text \<open>The \<^verbatim>\<open>.catch\<close> handler of the GET in the version with a slug.\<close>

definition load_page_catch :: "string \<Rightarrow> string \<Rightarrow> reply \<Rightarrow> error" where
  "load_page_catch bad other rp =
     (case rp of
        NoReply \<Rightarrow> TypeError
      | Reply r \<Rightarrow> if status r = 302 then Error bad else Error other)"

text \<open>
  \<^verbatim>\<open>loginToSession(slug, username, password, session?)\<close> takes the replies to the HEAD of
  \<^verbatim>\<open>getSession\<close> (sent only when no session is passed), to the HEAD of
  \<^verbatim>\<open>companySlugToId\<close>, to its GET and to its POST. The second component is the session
  object the call worked on, if there is one.
\<close>

definition loginToSession_part0 ::
  "(string \<Rightarrow> string) \<Rightarrow> reply \<Rightarrow> reply \<Rightarrow> reply \<Rightarrow> reply \<Rightarrow> session option
     \<Rightarrow> (error + session) \<times> session option" where
  "loginToSession_part0 unesc head_s head_c get post sopt =
     (case (case sopt of None \<Rightarrow> getSession_part0 unesc head_s | Some s \<Rightarrow> Inr s) of
        Inl e \<Rightarrow> (Inl e, None)
      | Inr s \<Rightarrow>
          (case companySlugToId_part0 unesc head_c of
             Inl e \<Rightarrow> (Inl e, Some s)
           | Inr companyId \<Rightarrow>
               if rejected get
               then (Inl (load_page_catch ''Failed to load page, bad session?'' ''Failed to load page'' get),
                     Some s)
               else (case login_post_part0 post s of
                       Inl e \<Rightarrow> (Inl e, Some s)
                     | Inr s' \<Rightarrow>
                         if \<not> truthy (token s') then (Inl LoginFailed, Some s')
                         else (Inr s', Some s'))))"

subsection \<open>setSessionLanguage\<close>

text \<open>The culture read back from the redirect:
  \<^verbatim>\<open>headers['set-cookie'].join('').match(/culture=(.*?)&Expires/)[1]\<close>.\<close>

definition culture_of_cookies :: "response \<Rightarrow> error + string" where
  "culture_of_cookies r =
     (case set_cookie r of
        None \<Rightarrow> Inl TypeError
      | Some cs \<Rightarrow> (case match_culture (concat cs) of None \<Rightarrow> Inl TypeError | Some c \<Rightarrow> Inr c))"

text \<open>The branch of the POST handler for status 302, the same in both versions.\<close>

definition language_confirmed :: "Language \<Rightarrow> response \<Rightarrow> session \<Rightarrow> error + session" where
  "language_confirmed language r s =
     (case culture_of_cookies r of
        Inl e \<Rightarrow> Inl e
      | Inr setLanguage \<Rightarrow>
          if language_tag language = setLanguage then Inr s else Inl LanguageMismatch)"

definition setSessionLanguage_part1 :: "reply \<Rightarrow> reply \<Rightarrow> Language \<Rightarrow> session \<Rightarrow> error + session" where
  "setSessionLanguage_part1 get post language s =
     (if rejected get then Inl (Error ''Failed to load index page, bad session?'')
      else (case post of
              NoReply \<Rightarrow> Inl TypeError
            | Reply r \<Rightarrow>
                if fulfilled r then Inr s
                else if status r = 302 then language_confirmed language r s
                else Inr s))"

definition setSessionLanguage_part0 :: "reply \<Rightarrow> reply \<Rightarrow> Language \<Rightarrow> session \<Rightarrow> error + session" where
  "setSessionLanguage_part0 get post language s =
     (if rejected get
      then Inl (load_page_catch ''Failed to load page, invalid session?'' ''Failed to load page'' get)
      else (case post of
              NoReply \<Rightarrow> Inl TypeError
            | Reply r \<Rightarrow>
                if fulfilled r then Inr s
                else if status r = 302 then language_confirmed language r s
                else Inl (Error ''Error setting the language, invalid session?'')))"

subsection \<open>Locale, dates and attachment links\<close>

definition matchLocale :: "string \<Rightarrow> error + Language" where
  "matchLocale html =
     (case match_cultureInfo html of
        None \<Rightarrow> Inl LocaleNotFound
      | Some l \<Rightarrow>
          if l = ''fi-FI'' then Inr Fi
          else if l = ''sv-SE'' then Inr Sv
          else if l = ''en-GB'' then Inr En
          else if l = ''da-DK'' then Inr Da
          else Inl LocaleNotFound)"

fun date_format :: "Language \<Rightarrow> string" where
  "date_format Fi = ''d.M.yyyy HH:mm:ss''"
| "date_format Sv = ''yyyy-MM-dd HH:mm:ss''"
| "date_format En = ''dd/MM/yyyy HH:mm:ss''"
| "date_format Da = ''dd-MM-yyyy HH:mm:ss''"

definition parseLocalizedDate :: "'d env \<Rightarrow> string \<Rightarrow> Language \<Rightarrow> error + 'd" where
  "parseLocalizedDate ev date locale = zoned_parse ev date (date_format locale)"

definition buildAttachmentLink :: "string \<Rightarrow> string" where
  "buildAttachmentLink fileUuid =
     ''https://tarjouspalvelu.fi/Document/Open/?fileType=TarjPyynTied&id='' @ fileUuid"

section \<open>Tenders\<close>

text \<open>
  \<^verbatim>\<open>removeTender\<close> takes the reply to its POST (sent without \<^verbatim>\<open>maxRedirects\<close>, so the
  client follows redirects and the reply is the final one). Every rejection of the POST
  becomes the tender-removal error; the test on \<^verbatim>\<open>response.data\<close> runs after the handler
  and throws what it throws.
\<close>

definition error_marker :: string where
  \<open>error_marker = ''{"error":true}''\<close>

definition removeTender :: "(string \<Rightarrow> json option) \<Rightarrow> reply \<Rightarrow> error + unit" where
  "removeTender JSON_parse post =
     (if rejected post then Inl TenderRemovalFailed
      else (case post of
              NoReply \<Rightarrow> Inl TenderRemovalFailed
            | Reply response \<Rightarrow>
                (case data_includes (response_data JSON_parse response) error_marker of
                   Inl e \<Rightarrow> Inl e
                 | Inr found \<Rightarrow> if found then Inl TenderRemovalFailed else Inr ())))"

section \<open>Companies\<close>

record company =
  company_id :: jsnum
  company_slug :: string
  company_name :: string
  company_logo :: "string option"

text \<open>
  The two tests at the head of the loop of \<^verbatim>\<open>getCompanies\<close>, each followed by
  \<^verbatim>\<open>continue\<close>: \<^verbatim>\<open>!$(cell).attr('style')\<close> and \<^verbatim>\<open>$(cell).attr('colspan')\<close>. Both are
  truthiness tests, so an attribute with an empty value counts as absent.
\<close>

definition spacer_cell :: "node \<Rightarrow> bool" where
  "spacer_cell c = (\<not> truthy (sel_attr ''style'' [c]) \<or> truthy (sel_attr ''colspan'' [c]))"

text \<open>
  The rest of the loop body. \<open>logo_of\<close> is what the version at hand does for the logo, given
  the \<^verbatim>\<open>src\<close> of the image.
\<close>

definition company_of_cell :: "(string \<Rightarrow> error + string option) \<Rightarrow> node \<Rightarrow> error + company" where
  "company_of_cell logo_of c =
     (let src = sel_attr ''src'' (take 1 (find (is_tag ''img'') [c]));
          ident = map_option (substr 15) src;
          slug = map_option (substr 26) (sel_attr ''href'' (take 1 (find (is_tag ''a'') [c])))
      in (case ident of
            None \<Rightarrow> Inl (Error ''Failed getting company id'')
          | Some i \<Rightarrow>
              if i = [] then Inl (Error ''Failed getting company id'')
              else (case slug of
                      None \<Rightarrow> Inl (Error ''Failed getting company slug'')
                    | Some sl \<Rightarrow>
                        if sl = [] then Inl (Error ''Failed getting company slug'')
                        else (case logo_of (case src of None \<Rightarrow> [] | Some v \<Rightarrow> v) of
                                Inl e \<Rightarrow> Inl e
                              | Inr lg \<Rightarrow>
                                  Inr \<lparr>company_id = parseInt i,
                                       company_slug = sl,
                                       company_name = sel_text (take 1 (find (is_tag ''p'') [c])),
                                       company_logo = lg\<rparr>))))"

text \<open>The \<^verbatim>\<open>for\<close> loop over the cells, with the array \<^verbatim>\<open>companies\<close> as accumulator.\<close>

fun companies_loop ::
  "(node \<Rightarrow> error + company) \<Rightarrow> node list \<Rightarrow> company list \<Rightarrow> error + company list" where
  "companies_loop f [] companies = Inr companies"
| "companies_loop f (c # cs) companies =
     (if spacer_cell c then companies_loop f cs companies
      else (case f c of
              Inl e \<Rightarrow> Inl e
            | Inr x \<Rightarrow> companies_loop f cs (companies @ [x])))"

text \<open>
  The version with \<^verbatim>\<open>getLogos\<close>; \<open>imageToBase64\<close> is the library that fetches and encodes the
  logo. The GET follows redirects and has no \<^verbatim>\<open>.catch\<close>.
\<close>

definition getCompanies_part0 ::
  "'d env \<Rightarrow> (string \<Rightarrow> error + string) \<Rightarrow> bool \<Rightarrow> reply \<Rightarrow> error + company list" where
  "getCompanies_part0 ev imageToBase64 getLogos rp =
     (case rp of
        NoReply \<Rightarrow> Inl AxiosError
      | Reply response \<Rightarrow>
          if \<not> fulfilled response then Inl AxiosError
          else companies_loop
                 (company_of_cell
                    (\<lambda>src. if getLogos
                           then (case imageToBase64 (''https://tarjouspalvelu.fi'' @ src) of
                                   Inl e \<Rightarrow> Inl e
                                 | Inr b \<Rightarrow> Inr (Some b))
                           else Inr None))
                 (select child_of_tr (load ev (data response))) [])"

text \<open>The version without logos.\<close>

definition getCompanies_part1 :: "'d env \<Rightarrow> reply \<Rightarrow> error + company list" where
  "getCompanies_part1 ev rp =
     (case rp of
        NoReply \<Rightarrow> Inl AxiosError
      | Reply response \<Rightarrow>
          if \<not> fulfilled response then Inl AxiosError
          else companies_loop (company_of_cell (\<lambda>src. Inr None))
                 (select child_of_tr (load ev (data response))) [])"

section \<open>Notices\<close>

record 'd dps =
  dps_id :: jsnum
  dps_customId :: string
  dps_unit :: string
  dps_title :: string
  dps_shortDescription :: string
  dps_isBeingCorrected :: bool
  dps_additionalDesc :: "string option"
  dps_deadline :: "'d option"
  dps_originalDeadline :: "string option"

record 'd notice =
  notice_id :: jsnum
  notice_customId :: string
  notice_unit :: string
  notice_flags :: "string list"
  notice_title :: string
  notice_types :: "string list"
  notice_shortDescription :: string
  notice_isBeingCorrected :: bool
  notice_deadline :: "'d option"
  notice_originalDeadline :: "string option"

record 'd notices =
  dynamicPurchasingSystems :: "'d dps list"
  notices_list :: "'d notice list"
  language :: Language

text \<open>\<^verbatim>\<open>sel.map(f).get()\<close> with an \<open>f\<close> that may throw: the first throw ends the call.\<close>

fun map_throwing :: "('a \<Rightarrow> error + 'b) \<Rightarrow> 'a list \<Rightarrow> error + 'b list" where
  "map_throwing f [] = Inr []"
| "map_throwing f (x # xs) =
     (case f x of
        Inl e \<Rightarrow> Inl e
      | Inr y \<Rightarrow> (case map_throwing f xs of Inl e \<Rightarrow> Inl e | Inr ys \<Rightarrow> Inr (y # ys)))"

text \<open>\<^verbatim>\<open>parseInt(querystring.parse($(row[6]).find('a').attr('href') || '').tpID.toString())\<close>\<close>

definition row_id :: "'d env \<Rightarrow> node list \<Rightarrow> error + jsnum" where
  "row_id ev row =
     (case qs_get (unescape ev)
             (case sel_attr ''href'' (find (is_tag ''a'') (nth_sel row 6)) of
                None \<Rightarrow> [] | Some h \<Rightarrow> h)
             ''tpID'' of
        Inl e \<Rightarrow> Inl e
      | Inr v \<Rightarrow> Inr (parseInt v))"

text \<open>The text of the correction marker of a row of the table of dynamic purchasing systems:
  \<^verbatim>\<open>$(row[3]).find($('.punainenfontti')).text()\<close>.\<close>

definition marker_text :: "node list \<Rightarrow> string" where
  "marker_text row = sel_text (find (has_class ''punainenfontti'') (nth_sel row 3))"

text \<open>The cells of a row, \<^verbatim>\<open>$(rows[i]).find('td')\<close>.\<close>

definition row_cells :: "node \<Rightarrow> node list" where
  "row_cells tr = find (is_tag ''td'') [tr]"

text \<open>One turn of the loop over the rows of \<^verbatim>\<open>#DPSIlmoituslista\<close>.\<close>

definition dps_of_row :: "'d env \<Rightarrow> Language \<Rightarrow> node \<Rightarrow> error + 'd dps" where
  "dps_of_row ev locale tr =
     (let row = row_cells tr;
          shortDescription = trim (sel_text (nth_sel row 3));
          isBeingCorrected =
            (sel_attr ''class'' (find (is_tag ''div'') (nth_sel row 3)) = Some ''punainenfontti'')
      in (case row_id ev row of
            Inl e \<Rightarrow> Inl e
          | Inr i \<Rightarrow>
              (case parseLocalizedDate ev (trim (sel_text (nth_sel row 4))) locale of
                 Inl e \<Rightarrow> Inl e
               | Inr dl \<Rightarrow>
                   Inr \<lparr>dps_id = i,
                        dps_customId = trim (sel_text (nth_sel row 1)),
                        dps_unit = trim (sel_text (nth_sel row 0)),
                        dps_title = trim (sel_text (nth_sel row 2)),
                        dps_shortDescription = shortDescription,
                        dps_isBeingCorrected = isBeingCorrected,
                        dps_additionalDesc =
                          (if isBeingCorrected
                           then Some (trim (replace shortDescription (marker_text row) []))
                           else None),
                        dps_deadline = Some dl,
                        dps_originalDeadline = Some (trim (sel_text (nth_sel row 4)))\<rparr>)))"

text \<open>The decoder of one icon in \<^verbatim>\<open>getNotices\<close>: the first pattern, then the second.\<close>

definition flag_of_icon :: "node \<Rightarrow> error + string" where
  "flag_of_icon el =
     (case Option.bind (attr ''src'' el) match_ikoni_gif of
        Some flag \<Rightarrow> Inr flag
      | None \<Rightarrow>
          (case Option.bind (attr ''src'' el) match_images_ikoni of
             Some flag \<Rightarrow> Inr flag
           | None \<Rightarrow> Inl FlagParseError))"

text \<open>The title of a notice row:
  \<^verbatim>\<open>$(row[2]).find('a').text().trim().replace(`${$(row[0]).text().trim()} / `, '')\<close>.\<close>

definition displayed_title :: "node list \<Rightarrow> string" where
  "displayed_title row = trim (sel_text (find (is_tag ''a'') (nth_sel row 2)))"

definition row_title :: "node list \<Rightarrow> string" where
  "row_title row = replace (displayed_title row) (trim (sel_text (nth_sel row 0)) @ '' / '') []"

text \<open>One turn of the loop over the rows of \<^verbatim>\<open>#ctl00_PageContent_GridView1\<close>.\<close>

definition notice_of_row :: "'d env \<Rightarrow> Language \<Rightarrow> node \<Rightarrow> error + 'd notice" where
  "notice_of_row ev locale tr =
     (let row = row_cells tr;
          due = trim (sel_text (nth_sel row 4))
      in (case row_id ev row of
            Inl e \<Rightarrow> Inl e
          | Inr i \<Rightarrow>
              (case map_throwing flag_of_icon (find (is_tag ''img'') (nth_sel row 2)) of
                 Inl e \<Rightarrow> Inl e
               | Inr flags \<Rightarrow>
                   (case (if length due \<noteq> 0
                          then (case parseLocalizedDate ev due locale of
                                  Inl e \<Rightarrow> Inl e
                                | Inr dl \<Rightarrow> Inr (Some dl))
                          else Inr None) of
                      Inl e \<Rightarrow> Inl e
                    | Inr deadline \<Rightarrow>
                        Inr \<lparr>notice_id = i,
                             notice_customId = trim (sel_text (nth_sel row 0)),
                             notice_unit = trim (sel_text (nth_sel row 1)),
                             notice_flags = flags,
                             notice_title = row_title row,
                             notice_types = map text_of (find (is_tag ''span'') (nth_sel row 2)),
                             notice_shortDescription =
                               trim (sel_text (find (is_tag ''span'') (nth_sel row 3))),
                             notice_isBeingCorrected =
                               (sel_css ''color'' (find (is_tag ''span'') (nth_sel row 3)) = Some ''red''),
                             notice_deadline = deadline,
                             notice_originalDeadline =
                               (if length due \<noteq> 0 then Some due else None)\<rparr>))))"

text \<open>The rows of the two tables, \<^verbatim>\<open>$('#DPSIlmoituslista > tbody > tr')\<close> and
  \<^verbatim>\<open>$('#ctl00_PageContent_GridView1 > tbody > tr')\<close>.\<close>

definition dpsRows :: "node \<Rightarrow> node list" where
  "dpsRows doc = select (table_rows ''DPSIlmoituslista'') doc"

definition noticeRows :: "node \<Rightarrow> node list" where
  "noticeRows doc = select (table_rows ''ctl00_PageContent_GridView1'') doc"

text \<open>\<^verbatim>\<open>getNotices\<close> takes the reply to its GET.\<close>

definition getNotices :: "'d env \<Rightarrow> reply \<Rightarrow> error + 'd notices" where
  "getNotices ev rp =
     (if rejected rp
      then Inl (load_page_catch ''Failed to load notices, bad session?'' ''Failed to load notices'' rp)
      else (case rp of
              NoReply \<Rightarrow> Inl TypeError
            | Reply response \<Rightarrow>
                (case matchLocale (data response) of
                   Inl e \<Rightarrow> Inl e
                 | Inr locale \<Rightarrow>
                     (case map_throwing (dps_of_row ev locale) (dpsRows (load ev (data response))) of
                        Inl e \<Rightarrow> Inl e
                      | Inr ds \<Rightarrow>
                          (case map_throwing (notice_of_row ev locale)
                                  (noticeRows (load ev (data response))) of
                             Inl e \<Rightarrow> Inl e
                           | Inr ns \<Rightarrow>
                               Inr \<lparr>dynamicPurchasingSystems = ds,
                                    notices_list = ns,
                                    language = locale\<rparr>)))))"

section \<open>A single notice\<close>

record attachment =
  fileName :: string
  fileUuid :: "string option"

record 'd notice_detail =
  detail_id :: int
  detail_customId :: string
  detail_published :: 'd
  detail_originalPublished :: string
  detail_deadline :: "'d option"
  detail_originalDeadline :: "string option"
  detail_unit :: string
  detail_title :: string
  detail_flags :: "string list"
  detail_types :: "string list"
  detail_description :: "string option"
  detail_authorityType :: string
  detail_category :: string
  detail_attachments :: "attachment list"
  detail_links :: "string list"

text \<open>The decoder of one icon in \<^verbatim>\<open>getNotice\<close>: the first pattern only.\<close>

definition flag_of_icon_detail :: "node \<Rightarrow> error + string" where
  "flag_of_icon_detail el =
     (case Option.bind (attr ''src'' el) match_ikoni_gif of
        Some flag \<Rightarrow> Inr flag
      | None \<Rightarrow> Inl FlagParseError)"

definition download_path :: string where
  "download_path = ''../Document/Open/?fileType=TarjPyynTied&id=''"

definition attachment_of_link :: "node \<Rightarrow> attachment" where
  "attachment_of_link el =
     \<lparr>fileName = text_of el,
      fileUuid = map_option (\<lambda>href. replace href download_path []) (attr ''href'' el)\<rparr>"

text \<open>The object literal of \<^verbatim>\<open>getNotice\<close>, from the three parsed pages.\<close>

definition notice_of_pages ::
  "'d env \<Rightarrow> Language \<Rightarrow> int \<Rightarrow> node \<Rightarrow> node \<Rightarrow> node \<Rightarrow> error + 'd notice_detail" where
  "notice_of_pages ev locale noticeId d a n =
     (let due = sel_text (select (by_id ''valDueDate'') d)
      in (case parseLocalizedDate ev (sel_text (select (by_id ''valIlmPaiva'') d)) locale of
            Inl e \<Rightarrow> Inl e
          | Inr published \<Rightarrow>
              (case (if length due \<noteq> 0
                     then (case parseLocalizedDate ev (split_head ''  (UTC'' due) locale of
                             Inl e \<Rightarrow> Inl e
                           | Inr dl \<Rightarrow> Inr (Some dl))
                     else Inr None) of
                 Inl e \<Rightarrow> Inl e
               | Inr deadline \<Rightarrow>
                   (case map_throwing flag_of_icon_detail
                           (select (attr_equals ''img'' ''align'' ''absmiddle'') n) of
                      Inl e \<Rightarrow> Inl e
                    | Inr flags \<Rightarrow>
                        Inr \<lparr>detail_id = noticeId,
                             detail_customId = sel_text (select (by_id ''valHankTunniste'') d),
                             detail_published = published,
                             detail_originalPublished = sel_text (select (by_id ''valIlmPaiva'') d),
                             detail_deadline = deadline,
                             detail_originalDeadline =
                               (if length due \<noteq> 0 then Some (split_head ''  (UTC'' due) else None),
                             detail_unit = sel_text (select (by_id ''valHankYksMarkNimi'') d),
                             detail_title = sel_text (select (by_id ''valHankNimi'') d),
                             detail_flags = flags,
                             detail_types =
                               map text_of (select (attr_contains ''span'' ''class'' ''harmaa'') n),
                             detail_description =
                               (case select (by_id ''valKuvaus'') d of
                                  [] \<Rightarrow> None
                                | el # _ \<Rightarrow> Some (html_of ev el)),
                             detail_authorityType = sel_text (select (by_id ''valHankYksLuo'') d),
                             detail_category = sel_text (select (by_id ''valHankLaj'') d),
                             detail_attachments =
                               map attachment_of_link
                                 (select (attr_contains ''a'' ''id'' ''TiedostoLinkki'') a),
                             detail_links =
                               List.map_filter (attr ''href'')
                                 (select (attr_contains ''a'' ''id'' ''HyperLink1'') a)\<rparr>))))"

text \<open>
  \<^verbatim>\<open>getNotice\<close> takes the replies to its three GETs: the processing page, the details
  page and the attachments page. The last two are awaited together; when both are
  rejected the model reports the details page.
\<close>

definition getNotice ::
  "'d env \<Rightarrow> int \<Rightarrow> reply \<Rightarrow> reply \<Rightarrow> reply \<Rightarrow> error + 'd notice_detail" where
  "getNotice ev noticeId noticePage detailsResponse attachmentsResponse =
     (if rejected noticePage
      then Inl (load_page_catch ''Failed to load notice, bad session?'' ''Failed to load notice'' noticePage)
      else (case noticePage of
              NoReply \<Rightarrow> Inl TypeError
            | Reply np \<Rightarrow>
                (case matchLocale (data np) of
                   Inl e \<Rightarrow> Inl e
                 | Inr locale \<Rightarrow>
                     if rejected detailsResponse
                     then Inl (load_page_catch ''Failed to load notice, bad session?''
                                 ''Failed to load notice'' detailsResponse)
                     else if rejected attachmentsResponse
                     then Inl (load_page_catch ''Failed to load notice, bad session?''
                                 ''Failed to load notice'' attachmentsResponse)
                     else (case (detailsResponse, attachmentsResponse) of
                             (Reply dr, Reply ar) \<Rightarrow>
                               notice_of_pages ev locale noticeId
                                 (load ev (data dr)) (load ev (data ar)) (load ev (data np))
                           | _ \<Rightarrow> Inl TypeError))))"

section \<open>Example pages\<close>

text \<open>
  Stand-ins for the collaborators, for running the functions on concrete pages: a parser
  given as a table from bodies to documents, a decoder that leaves its (escape-free)
  argument alone, and a date library that accepts every string and returns it as the
  date. A body that carries the Finnish locale marker.
\<close>

definition example_env :: "(string \<Rightarrow> node) \<Rightarrow> string env" where
  "example_env pages =
     \<lparr>load = pages, html_of = (\<lambda>n. []), unescape = (\<lambda>s. s), zoned_parse = (\<lambda>date fmt. Inr date)\<rparr>"

definition example_body :: string where
  \<open>example_body = ''__cultureInfo = {"name":"fi-FI","''\<close>

text \<open>\<^verbatim>\<open>JSON.parse\<close> on the bodies of the tender examples: three JSON texts, and \<open>None\<close> for
  the bodies that are not JSON.\<close>

definition example_json :: "string \<Rightarrow> json option" where
  \<open>example_json body =
     (if body = ''{"error":true}'' then Some (JObject [(''error'', JBool True)])
      else if body = ''{"error":false}'' then Some (JObject [(''error'', JBool False)])
      else if body = ''[{"error":true}]'' then Some (JArray [JObject [(''error'', JBool True)]])
      else None)\<close>

definition example_link :: node where
  "example_link = Element ''a'' [(''href'', ''n?p=1&tpID=5'')] []"

text \<open>
  A row of the table of dynamic purchasing systems whose description cell holds a
  \<^verbatim>\<open>div\<close> with text \<open>mark\<close> (of class \<^verbatim>\<open>punainenfontti\<close> when \<open>corrected\<close>) followed by the text
  \<open>desc\<close>; a row of the table of notices with first cell \<open>c0\<close>, second cell \<open>c1\<close>, an icon
  with source \<open>icon\<close>, link text \<open>t\<close>, an empty description and deadline cell \<open>due\<close>; and a
  notices page with one row in each table.
\<close>

definition dps_row :: "bool \<Rightarrow> string \<Rightarrow> string \<Rightarrow> node" where
  "dps_row corrected mark desc =
     Element ''tr'' []
       [Element ''td'' [] [Text ''Unit''],
        Element ''td'' [] [Text ''D-7''],
        Element ''td'' [] [Text ''Title''],
        Element ''td'' []
          [Element ''div'' [(''class'', if corrected then ''punainenfontti'' else ''plain'')]
             [Text mark],
           Text desc],
        Element ''td'' [] [Text ''1.2.2021 12:00:00''],
        Element ''td'' [] [],
        Element ''td'' [] [example_link]]"

definition notice_row :: "string \<Rightarrow> string \<Rightarrow> string \<Rightarrow> string \<Rightarrow> string \<Rightarrow> node" where
  "notice_row c0 c1 icon t due =
     Element ''tr'' []
       [Element ''td'' [] [Text c0],
        Element ''td'' [] [Text c1],
        Element ''td'' [] [Element ''img'' [(''src'', icon)] [], Element ''a'' [] [Text t]],
        Element ''td'' [] [Element ''span'' [] []],
        Element ''td'' [] [Text due],
        Element ''td'' [] [],
        Element ''td'' [] [example_link]]"

definition listing_page :: "node \<Rightarrow> node \<Rightarrow> node" where
  "listing_page drow nrow =
     Element ''html'' []
       [Element ''table'' [(''id'', ''DPSIlmoituslista'')] [Element ''tbody'' [] [drow]],
        Element ''table'' [(''id'', ''ctl00_PageContent_GridView1'')] [Element ''tbody'' [] [nrow]]]"

text \<open>The notices page of the title examples: a notice row with first cell \<open>c0\<close>, unit
  \<^verbatim>\<open>UnitX\<close> and displayed title \<^verbatim>\<open>UnitX / Actual Title\<close>.\<close>

definition title_example :: "string \<Rightarrow> node" where
  "title_example c0 =
     listing_page (dps_row True ''Korjattavana'' '' Cleaning '')
       (notice_row c0 ''UnitX'' ''ikoni_eu.gif'' ''UnitX / Actual Title'' [])"

text \<open>The notices page of the correction examples: a row of the table of dynamic purchasing
  systems with the marker \<^verbatim>\<open>Korjattavana\<close> before the description, and a notice with a
  deadline.\<close>

definition correction_example :: "bool \<Rightarrow> node" where
  "correction_example corrected =
     listing_page (dps_row corrected ''Korjattavana'' '' Cleaning '')
       (notice_row ''K-1'' ''UnitX'' ''ikoni_eu.gif'' ''Title'' ''1.2.2021 12:00:00'')"

text \<open>The same page with blanks around the text of the marker.\<close>

definition blank_marker_example :: node where
  "blank_marker_example =
     listing_page (dps_row True '' Korjattavana '' ''Cleaning'')
       (notice_row ''K-1'' ''UnitX'' ''ikoni_eu.gif'' ''Title'' [])"

text \<open>
  The three pages of a notice: a processing page with one icon and one type tag, a details
  page with a publication date, a deadline text \<open>due\<close> and a title, and an attachments page
  with one file link to \<open>href\<close> and one plain link. \<open>notice_pages\<close> is the parser on the three
  bodies.
\<close>

definition processing_page :: "string \<Rightarrow> node" where
  "processing_page icon =
     Element ''div'' []
       [Element ''img'' [(''align'', ''absmiddle''), (''src'', icon)] [],
        Element ''span'' [(''class'', ''harmaa'')] [Text ''Tavarat'']]"

definition details_page :: "string \<Rightarrow> node" where
  "details_page due =
     Element ''div'' []
       [Element ''span'' [(''id'', ''valIlmPaiva'')] [Text ''1.1.2021 09:00:00''],
        Element ''span'' [(''id'', ''valDueDate'')] [Text due],
        Element ''span'' [(''id'', ''valHankNimi'')] [Text ''Title'']]"

definition attachments_page :: "string \<Rightarrow> node" where
  "attachments_page href =
     Element ''div'' []
       [Element ''a'' [(''id'', ''TiedostoLinkki0''), (''href'', href)] [Text ''spec.pdf''],
        Element ''a'' [(''id'', ''HyperLink1''), (''href'', ''https://example.org/'')] [Text ''more'']]"

definition notice_pages :: "string \<Rightarrow> string \<Rightarrow> string \<Rightarrow> string \<Rightarrow> node" where
  "notice_pages icon due href body =
     (if body = ''details'' then details_page due
      else if body = ''attachments'' then attachments_page href
      else processing_page icon)"

text \<open>
  The attachment links are relative to the attachments page, which lies in the directory
  \<^verbatim>\<open>/Tarjouspalvelu/\<close> of the site: a link that starts with \<^verbatim>\<open>../\<close> leads to the root of the
  site. \<open>from_subdirectory\<close> is the absolute URL of such a link.
\<close>

definition site :: string where
  "site = ''https://tarjouspalvelu.fi/''"

definition from_subdirectory :: "string \<Rightarrow> string" where
  "from_subdirectory href = site @ drop 3 href"

text \<open>The pages of the notice examples, with a deadline that carries a time zone annotation
  and a file link to the uuid \<^verbatim>\<open>abc-123\<close>; and a notices page whose notice carries the icon
  \<open>icon\<close>.\<close>

definition detail_example :: "string \<Rightarrow> string \<Rightarrow> node" where
  "detail_example icon =
     notice_pages icon ''1.2.2021 12:00:00  (UTC+02:00)''
       ''../Document/Open/?fileType=TarjPyynTied&id=abc-123''"

definition icon_example :: "string \<Rightarrow> node" where
  "icon_example icon =
     listing_page (dps_row False [] []) (notice_row ''K-1'' ''UnitX'' icon ''Title'' [])"

text \<open>
  A data cell from which the loop body of \<^verbatim>\<open>getCompanies\<close> can read an id and a slug: its
  first image has a \<^verbatim>\<open>src\<close> of more than 15 characters and its first link a \<^verbatim>\<open>href\<close> of more
  than 26.
\<close>

definition valid_cell :: "node \<Rightarrow> bool" where
  "valid_cell c =
     ((case sel_attr ''src'' (take 1 (find (is_tag ''img'') [c])) of
         None \<Rightarrow> False | Some src \<Rightarrow> 15 < length src) \<and>
      (case sel_attr ''href'' (take 1 (find (is_tag ''a'') [c])) of
         None \<Rightarrow> False | Some href \<Rightarrow> 26 < length href))"

text \<open>
  The company listing of the examples: a spacer cell without attributes, and a cell with
  the attributes \<open>attrs\<close> that holds the image \<^verbatim>\<open>/Default/Image/42\<close>, the link
  \<^verbatim>\<open>https://tarjouspalvelu.fi/acme\<close> and the caption \<^verbatim>\<open>Acme Oy\<close>.
\<close>

definition company_cell :: "(string \<times> string) list \<Rightarrow> node" where
  "company_cell attrs =
     Element ''td'' attrs
       [Element ''a'' [(''href'', ''https://tarjouspalvelu.fi/acme'')]
          [Element ''img'' [(''src'', ''/Default/Image/42'')] [],
           Element ''p'' [] [Text ''Acme Oy'']]]"

definition companies_page :: "(string \<times> string) list \<Rightarrow> node" where
  "companies_page attrs =
     Element ''table'' [] [Element ''tr'' [] [Element ''td'' [] [], company_cell attrs]]"

definition acme :: company where
  "acme = \<lparr>company_id = Num 42, company_slug = ''acme'', company_name = ''Acme Oy'',
            company_logo = None\<rparr>"

text \<open>A redirect is a response with a status of the class 3xx.\<close>

definition redirect :: "response \<Rightarrow> bool" where
  "redirect r = (300 \<le> status r \<and> status r < 400)"

section \<open>Properties\<close>

subsection \<open>Strings\<close>

lemma js_includes_sublist: "js_includes s pat \<longleftrightarrow> sublist pat s"
  by (induction s) (auto simp: sublist_Cons_right)

lemma trim_Nil: "trim [] = []"
  by (simp add: trim_def)

lemma replace_prefix: "replace (p @ r) p rep = rep @ r"
proof (cases "p @ r")
  case Nil
  then show ?thesis by simp
next
  case (Cons a l)
  have pre: "prefix p (a # l)"
    unfolding Cons [symmetric] by simp
  have "drop (length p) (a # l) = r"
    unfolding Cons [symmetric] by simp
  with pre show ?thesis
    unfolding Cons by simp
qed

lemma replace_first:
  "m \<noteq> [] \<Longrightarrow> \<not> sublist m (pre @ butlast m) \<Longrightarrow>
     replace (pre @ m @ post) m rep = pre @ rep @ post"
proof (induction pre)
  case Nil
  then show ?case using replace_prefix [of m post rep] by simp
next
  case (Cons c pre)
  have split: "c # pre @ m @ post = (c # pre @ butlast m) @ (last m # post)"
    using Cons.prems(1) by simp
  have np: "\<not> prefix m (c # pre @ m @ post)"
  proof
    assume a: "prefix m (c # pre @ m @ post)"
    have b: "prefix (c # pre @ butlast m) (c # pre @ m @ post)"
      unfolding split by (rule prefixI) simp
    have "length m \<le> length (c # pre @ butlast m)"
      using Cons.prems(1) by (cases m) auto
    with a b have "prefix m (c # pre @ butlast m)"
      by (rule prefix_length_prefix)
    then have "sublist m ((c # pre) @ butlast m)"
      by (simp add: prefix_imp_sublist)
    with Cons.prems(2) show False by simp
  qed
  have "\<not> sublist m (pre @ butlast m)"
    using Cons.prems(2) by (auto simp: sublist_Cons_right)
  with Cons.IH Cons.prems(1) have "replace (pre @ m @ post) m rep = pre @ rep @ post"
    by simp
  with np show ?case by simp
qed

lemma replace_empty_pattern: "replace s [] rep = rep @ s"
  by (cases s) auto

lemma replace_absent: "\<not> sublist m s \<Longrightarrow> replace s m rep = s"
proof (induction s)
  case Nil
  then show ?case by auto
next
  case (Cons c s)
  then have "\<not> prefix m (c # s)" "\<not> sublist m s"
    by (auto simp: sublist_Cons_right prefix_imp_sublist)
  with Cons.IH show ?case by simp
qed

subsection \<open>Loops that may throw\<close>

lemma map_throwing_length: "map_throwing f xs = Inr ys \<Longrightarrow> length ys = length xs"
  by (induction xs arbitrary: ys) (auto split: sum.splits)

lemma map_throwing_nth:
  "map_throwing f xs = Inr ys \<Longrightarrow> k < length xs \<Longrightarrow> f (xs ! k) = Inr (ys ! k)"
proof (induction xs arbitrary: ys k)
  case Nil
  then show ?case by simp
next
  case (Cons x xs)
  then show ?case
    by (cases k) (auto split: sum.splits)
qed

lemma map_throwing_set:
  "map_throwing f xs = Inr ys \<Longrightarrow> y \<in> set ys \<Longrightarrow> \<exists>x \<in> set xs. f x = Inr y"
  by (induction xs arbitrary: ys) (auto split: sum.splits)

subsection \<open>The notices listing\<close>

lemmas dom_defs = row_cells_def find_def descendants_def nth_sel_def sel_text_def sel_attr_def
  select_def table_rows_def dpsRows_def noticeRows_def

lemma getNotices_Inr:
  assumes "getNotices ev rp = Inr ns"
  obtains r where "rp = Reply r" "fulfilled r" "matchLocale (data r) = Inr (language ns)"
    "map_throwing (dps_of_row ev (language ns)) (dpsRows (load ev (data r)))
       = Inr (dynamicPurchasingSystems ns)"
    "map_throwing (notice_of_row ev (language ns)) (noticeRows (load ev (data r)))
       = Inr (notices_list ns)"
  using assms
  by (cases rp) (auto simp: getNotices_def rejected_def split: if_splits sum.splits)

lemma getNotices_notice_row:
  assumes "getNotices ev (Reply r) = Inr ns" and "k < length (notices_list ns)"
  shows "notice_of_row ev (language ns) (noticeRows (load ev (data r)) ! k) = Inr (notices_list ns ! k)"
proof -
  from assms(1) have m: "map_throwing (notice_of_row ev (language ns)) (noticeRows (load ev (data r)))
      = Inr (notices_list ns)"
    by (auto elim!: getNotices_Inr)
  with assms(2) show ?thesis
    using map_throwing_length [OF m] by (simp add: map_throwing_nth)
qed

lemma getNotices_dps_row:
  assumes "getNotices ev (Reply r) = Inr ns" and "k < length (dynamicPurchasingSystems ns)"
  shows "dps_of_row ev (language ns) (dpsRows (load ev (data r)) ! k)
           = Inr (dynamicPurchasingSystems ns ! k)"
proof -
  from assms(1) have m: "map_throwing (dps_of_row ev (language ns)) (dpsRows (load ev (data r)))
      = Inr (dynamicPurchasingSystems ns)"
    by (auto elim!: getNotices_Inr)
  with assms(2) show ?thesis
    using map_throwing_length [OF m] by (simp add: map_throwing_nth)
qed

lemma notice_of_row_title:
  "notice_of_row ev locale tr = Inr n \<Longrightarrow>
     notice_title n = row_title (row_cells tr) \<and>
     notice_customId n = trim (sel_text (nth_sel (row_cells tr) 0)) \<and>
     notice_unit n = trim (sel_text (nth_sel (row_cells tr) 1))"
  by (auto simp: notice_of_row_def Let_def split: sum.splits if_splits)

lemma dps_of_row_fields:
  assumes "dps_of_row ev locale tr = Inr d"
  shows "dps_additionalDesc d =
           (if dps_isBeingCorrected d
            then Some (trim (replace (dps_shortDescription d) (marker_text (row_cells tr)) []))
            else None)"
    and "dps_deadline d \<noteq> None" and "dps_originalDeadline d \<noteq> None"
    and "\<exists>raw dl. dps_originalDeadline d = Some raw \<and> dps_deadline d = Some dl \<and>
           parseLocalizedDate ev raw locale = Inr dl"
  using assms
  by (auto simp: dps_of_row_def Let_def split: sum.splits)

lemma notice_of_row_deadline:
  assumes "notice_of_row ev locale tr = Inr n"
  shows "(notice_deadline n = None \<and> notice_originalDeadline n = None) \<or>
         (\<exists>raw dl. notice_originalDeadline n = Some raw \<and> notice_deadline n = Some dl \<and>
            parseLocalizedDate ev raw locale = Inr dl)"
  using assms
  by (auto simp: notice_of_row_def Let_def split: sum.splits if_splits)

subsection \<open>The example notices pages\<close>

lemma example_env_load: "load (example_env pages) body = pages body"
  by (simp add: example_env_def)

lemma example_locale: "matchLocale example_body = Inr Fi"
  by (simp add: matchLocale_def match_cultureInfo_def match_group_def example_body_def
      line_terminator_def)

lemma example_trims:
  "trim ''Unit'' = ''Unit''" "trim ''D-7'' = ''D-7''" "trim ''Title'' = ''Title''"
  "trim ''1.2.2021 12:00:00'' = ''1.2.2021 12:00:00''"
  by (simp_all add: trim_def js_whitespace_def)

lemma listing_page_rows:
  "dpsRows (listing_page (dps_row corrected mark desc) (notice_row c0 c1 icon t due))
     = [dps_row corrected mark desc]"
  "noticeRows (listing_page (dps_row corrected mark desc) (notice_row c0 c1 icon t due))
     = [notice_row c0 c1 icon t due]"
  by (simp_all add: dom_defs listing_page_def dps_row_def notice_row_def example_link_def)

lemma notice_row_cells:
  "row_cells (notice_row c0 c1 icon t due) =
     [Element ''td'' [] [Text c0],
      Element ''td'' [] [Text c1],
      Element ''td'' [] [Element ''img'' [(''src'', icon)] [], Element ''a'' [] [Text t]],
      Element ''td'' [] [Element ''span'' [] []],
      Element ''td'' [] [Text due],
      Element ''td'' [] [],
      Element ''td'' [] [example_link]]"
  by (simp add: dom_defs notice_row_def example_link_def)

lemma dps_row_cells:
  "row_cells (dps_row corrected mark desc) =
     [Element ''td'' [] [Text ''Unit''],
        Element ''td'' [] [Text ''D-7''],
        Element ''td'' [] [Text ''Title''],
        Element ''td'' []
          [Element ''div'' [(''class'', if corrected then ''punainenfontti'' else ''plain'')]
             [Text mark],
           Text desc],
        Element ''td'' [] [Text ''1.2.2021 12:00:00''],
        Element ''td'' [] [],
        Element ''td'' [] [example_link]]"
  by (simp add: dom_defs dps_row_def example_link_def)

lemma example_link_id:
  "row_id (example_env pg) [c0, c1, c2, c3, c4, c5, Element ''td'' [] [example_link]] = Inr (Num 5)"
  by (simp add: row_id_def dom_defs example_link_def example_env_def qs_get_def qs_pairs_def
      parseInt_def js_whitespace_def is_digit_def digit_val_def digit_table_def digits_value_def)

lemma example_parse: "parseLocalizedDate (example_env pg) date locale = Inr date"
  by (simp add: parseLocalizedDate_def example_env_def)

lemma notice_row_notice:
  "notice_of_row (example_env pg) Fi (notice_row c0 c1 icon t due) =
     (case flag_of_icon (Element ''img'' [(''src'', icon)] []) of
        Inl e \<Rightarrow> Inl e
      | Inr flag \<Rightarrow>
          Inr \<lparr>notice_id = Num 5, notice_customId = trim c0, notice_unit = trim c1,
               notice_flags = [flag], notice_title = replace (trim t) (trim c0 @ '' / '') [],
               notice_types = [], notice_shortDescription = [], notice_isBeingCorrected = False,
               notice_deadline = (if trim due = [] then None else Some (trim due)),
               notice_originalDeadline = (if trim due = [] then None else Some (trim due))\<rparr>)"
  unfolding notice_of_row_def notice_row_cells
  by (simp add: Let_def example_link_id example_parse dom_defs row_title_def displayed_title_def
      sel_css_def style_parse_def trim_Nil split: sum.splits)

lemma dps_row_dps:
  "dps_of_row (example_env pg) Fi (dps_row corrected mark desc) =
     Inr \<lparr>dps_id = Num 5, dps_customId = ''D-7'', dps_unit = ''Unit'', dps_title = ''Title'',
          dps_shortDescription = trim (mark @ desc), dps_isBeingCorrected = corrected,
          dps_additionalDesc =
            (if corrected then Some (trim (replace (trim (mark @ desc)) mark [])) else None),
          dps_deadline = Some ''1.2.2021 12:00:00'',
          dps_originalDeadline = Some ''1.2.2021 12:00:00''\<rparr>"
proof -
  have m: "marker_text (row_cells (dps_row True mark desc)) = mark"
    unfolding dps_row_cells
    by (simp add: marker_text_def find_def descendants_def nth_sel_def sel_text_def has_class_def
        html_space_def)
  show ?thesis
  proof (cases corrected)
    case True
    with m show ?thesis
      unfolding dps_of_row_def
      by (simp add: Let_def dps_row_cells example_link_id example_parse example_trims
          find_def descendants_def nth_sel_def sel_text_def sel_attr_def)
  next
    case False
    then show ?thesis
      unfolding dps_of_row_def
      by (simp add: Let_def dps_row_cells example_link_id example_parse example_trims
          find_def descendants_def nth_sel_def sel_text_def sel_attr_def)
  qed
qed

lemma listing_page_notices:
  "getNotices (example_env (\<lambda>b. listing_page (dps_row corrected mark desc) (notice_row c0 c1 icon t due)))
      (Reply \<lparr>status = 200, location = None, set_cookie = None, data = example_body\<rparr>) =
     (case flag_of_icon (Element ''img'' [(''src'', icon)] []) of
        Inl e \<Rightarrow> Inl e
      | Inr flag \<Rightarrow>
          Inr \<lparr>dynamicPurchasingSystems =
                 [\<lparr>dps_id = Num 5, dps_customId = ''D-7'', dps_unit = ''Unit'', dps_title = ''Title'',
                   dps_shortDescription = trim (mark @ desc), dps_isBeingCorrected = corrected,
                   dps_additionalDesc =
                     (if corrected then Some (trim (replace (trim (mark @ desc)) mark [])) else None),
                   dps_deadline = Some ''1.2.2021 12:00:00'',
                   dps_originalDeadline = Some ''1.2.2021 12:00:00''\<rparr>],
               notices_list =
                 [\<lparr>notice_id = Num 5, notice_customId = trim c0, notice_unit = trim c1,
                   notice_flags = [flag], notice_title = replace (trim t) (trim c0 @ '' / '') [],
                   notice_types = [], notice_shortDescription = [], notice_isBeingCorrected = False,
                   notice_deadline = (if trim due = [] then None else Some (trim due)),
                   notice_originalDeadline = (if trim due = [] then None else Some (trim due))\<rparr>],
               language = Fi\<rparr>)"
  unfolding getNotices_def
  by (simp add: rejected_def fulfilled_def example_locale example_env_load listing_page_rows
      notice_row_notice dps_row_dps split: sum.splits)

lemma flag_eu: "flag_of_icon (Element ''img'' [(''src'', ''ikoni_eu.gif'')] []) = Inr ''eu''"
  by (simp add: flag_of_icon_def match_ikoni_gif_def match_group_def dot_gif_def line_terminator_def)

lemma title_example_notices:
  "getNotices (example_env (\<lambda>b. title_example c0))
      (Reply \<lparr>status = 200, location = None, set_cookie = None, data = example_body\<rparr>) =
     Inr \<lparr>dynamicPurchasingSystems =
            [\<lparr>dps_id = Num 5, dps_customId = ''D-7'', dps_unit = ''Unit'', dps_title = ''Title'',
              dps_shortDescription = ''Korjattavana Cleaning'', dps_isBeingCorrected = True,
              dps_additionalDesc = Some ''Cleaning'',
              dps_deadline = Some ''1.2.2021 12:00:00'',
              dps_originalDeadline = Some ''1.2.2021 12:00:00''\<rparr>],
          notices_list =
            [\<lparr>notice_id = Num 5, notice_customId = trim c0, notice_unit = ''UnitX'',
              notice_flags = [''eu''],
              notice_title = replace ''UnitX / Actual Title'' (trim c0 @ '' / '') [],
              notice_types = [], notice_shortDescription = [], notice_isBeingCorrected = False,
              notice_deadline = None, notice_originalDeadline = None\<rparr>],
          language = Fi\<rparr>"
proof -
  have t: "trim ''UnitX'' = ''UnitX''" "trim ''UnitX / Actual Title'' = ''UnitX / Actual Title''"
    "trim ''Korjattavana Cleaning '' = ''Korjattavana Cleaning''"
    "trim '' Cleaning'' = ''Cleaning''"
    by (simp_all add: trim_def js_whitespace_def)
  have r: "replace ''Korjattavana Cleaning'' ''Korjattavana'' [] = '' Cleaning''"
    by simp
  show ?thesis
    unfolding title_example_def listing_page_notices
    by (simp add: flag_eu t r trim_Nil del: replace.simps)
qed

lemma title_example_displayed:
  "displayed_title (row_cells (noticeRows (title_example c0) ! 0)) = ''UnitX / Actual Title''"
  unfolding title_example_def listing_page_rows
  by (simp add: notice_row_cells)
    (simp add: displayed_title_def find_def descendants_def nth_sel_def sel_text_def trim_def
      js_whitespace_def)

lemma correction_example_notices:
  "getNotices (example_env (\<lambda>b. correction_example corrected))
      (Reply \<lparr>status = 200, location = None, set_cookie = None, data = example_body\<rparr>) =
     Inr \<lparr>dynamicPurchasingSystems =
            [\<lparr>dps_id = Num 5, dps_customId = ''D-7'', dps_unit = ''Unit'', dps_title = ''Title'',
              dps_shortDescription = ''Korjattavana Cleaning'', dps_isBeingCorrected = corrected,
              dps_additionalDesc = (if corrected then Some ''Cleaning'' else None),
              dps_deadline = Some ''1.2.2021 12:00:00'',
              dps_originalDeadline = Some ''1.2.2021 12:00:00''\<rparr>],
          notices_list =
            [\<lparr>notice_id = Num 5, notice_customId = ''K-1'', notice_unit = ''UnitX'',
              notice_flags = [''eu''], notice_title = ''Title'',
              notice_types = [], notice_shortDescription = [], notice_isBeingCorrected = False,
              notice_deadline = Some ''1.2.2021 12:00:00'',
              notice_originalDeadline = Some ''1.2.2021 12:00:00''\<rparr>],
          language = Fi\<rparr>"
proof -
  have t: "trim ''UnitX'' = ''UnitX''" "trim ''K-1'' = ''K-1''" "trim ''Title'' = ''Title''"
    "trim ''Korjattavana Cleaning '' = ''Korjattavana Cleaning''"
    "trim '' Cleaning'' = ''Cleaning''"
    by (simp_all add: trim_def js_whitespace_def)
  have r: "replace ''Korjattavana Cleaning'' ''Korjattavana'' [] = '' Cleaning''"
    "replace ''Title'' ''K-1 / '' [] = ''Title''"
    by simp_all
  show ?thesis
    unfolding correction_example_def listing_page_notices
    by (simp add: flag_eu t r example_trims del: replace.simps)
qed

lemma correction_example_marker:
  "marker_text (row_cells (dpsRows (correction_example True) ! 0)) = ''Korjattavana''"
  unfolding correction_example_def listing_page_rows
  by (simp add: dps_row_cells)
    (simp add: marker_text_def find_def descendants_def nth_sel_def sel_text_def has_class_def
      html_space_def)

subsection \<open>Notice titles\<close>

text \<open>
  Claim C1, as the code has it. The prefix that \<^verbatim>\<open>getNotices\<close> strips from the displayed
  title of a notice row is the text of the first cell of the row followed by \<^verbatim>\<open>' / '\<close>. The
  first cell is the one stored as \<^verbatim>\<open>customId\<close>; the unit is read from the second cell.
  Whenever the displayed title begins with the first cell's text followed by \<^verbatim>\<open>' / '\<close>, the
  stored title is the rest.
\<close>

theorem notice_title_strips_first_cell:
  assumes "getNotices ev (Reply r) = Inr ns"
    and "k < length (notices_list ns)"
    and "displayed_title (row_cells (noticeRows (load ev (data r)) ! k))
           = notice_customId (notices_list ns ! k) @ '' / '' @ rest"
  shows "notice_title (notices_list ns ! k) = rest"
proof -
  from notice_of_row_title [OF getNotices_notice_row [OF assms(1,2)]] assms(3) show ?thesis
    using replace_prefix [of "notice_customId (notices_list ns ! k) @ '' / ''" rest "[]"]
    by (simp add: row_title_def)
qed

theorem notice_title_strips_first_cell_witness:
  "getNotices (example_env (\<lambda>b. title_example ''UnitX''))
       (Reply \<lparr>status = 200, location = None, set_cookie = None, data = example_body\<rparr>) =
     Inr \<lparr>dynamicPurchasingSystems =
            [\<lparr>dps_id = Num 5, dps_customId = ''D-7'', dps_unit = ''Unit'', dps_title = ''Title'',
              dps_shortDescription = ''Korjattavana Cleaning'', dps_isBeingCorrected = True,
              dps_additionalDesc = Some ''Cleaning'',
              dps_deadline = Some ''1.2.2021 12:00:00'',
              dps_originalDeadline = Some ''1.2.2021 12:00:00''\<rparr>],
          notices_list =
            [\<lparr>notice_id = Num 5, notice_customId = ''UnitX'', notice_unit = ''UnitX'',
              notice_flags = [''eu''], notice_title = ''Actual Title'',
              notice_types = [], notice_shortDescription = [], notice_isBeingCorrected = False,
              notice_deadline = None, notice_originalDeadline = None\<rparr>],
          language = Fi\<rparr> \<and>
   displayed_title (row_cells (noticeRows (title_example ''UnitX'') ! 0))
     = ''UnitX'' @ '' / '' @ ''Actual Title''"
proof -
  let ?ev = "example_env (\<lambda>b. title_example ''UnitX'')"
  let ?r = "\<lparr>status = 200, location = None, set_cookie = None, data = example_body\<rparr>"
  have t: "trim ''UnitX'' = ''UnitX''"
    by (simp add: trim_def js_whitespace_def)
  note g = title_example_notices [of "''UnitX''", unfolded t]
  have d: "displayed_title (row_cells (noticeRows (load ?ev (data ?r)) ! 0))
      = ''UnitX'' @ '' / '' @ ''Actual Title''"
    by (simp add: example_env_def title_example_displayed)
  have "replace ''UnitX / Actual Title'' (''UnitX'' @ '' / '') [] = ''Actual Title''"
    using notice_title_strips_first_cell [OF g, of 0 "''Actual Title''"] d
    by (simp del: replace.simps)
  with g show ?thesis
    by (simp add: title_example_displayed)
qed

text \<open>
  With first cell \<^verbatim>\<open>K-1\<close>, unit \<^verbatim>\<open>UnitX\<close> and displayed title \<^verbatim>\<open>UnitX / Actual Title\<close> the
  stored title keeps the unit prefix.
\<close>

theorem notice_title_unit_counterexample:
  "getNotices (example_env (\<lambda>b. title_example ''K-1''))
       (Reply \<lparr>status = 200, location = None, set_cookie = None, data = example_body\<rparr>) =
     Inr \<lparr>dynamicPurchasingSystems =
            [\<lparr>dps_id = Num 5, dps_customId = ''D-7'', dps_unit = ''Unit'', dps_title = ''Title'',
              dps_shortDescription = ''Korjattavana Cleaning'', dps_isBeingCorrected = True,
              dps_additionalDesc = Some ''Cleaning'',
              dps_deadline = Some ''1.2.2021 12:00:00'',
              dps_originalDeadline = Some ''1.2.2021 12:00:00''\<rparr>],
          notices_list =
            [\<lparr>notice_id = Num 5, notice_customId = ''K-1'', notice_unit = ''UnitX'',
              notice_flags = [''eu''], notice_title = ''UnitX / Actual Title'',
              notice_types = [], notice_shortDescription = [], notice_isBeingCorrected = False,
              notice_deadline = None, notice_originalDeadline = None\<rparr>],
          language = Fi\<rparr> \<and>
   displayed_title (row_cells (noticeRows (title_example ''K-1'') ! 0)) = ''UnitX / Actual Title''"
proof -
  have t: "trim ''K-1'' = ''K-1''"
    by (simp add: trim_def js_whitespace_def)
  show ?thesis
    using title_example_notices [of "''K-1''", unfolded t]
    by (simp add: title_example_displayed)
qed

subsection \<open>Corrections of dynamic purchasing systems\<close>

text \<open>
  What holds of every row of the table of dynamic purchasing systems that \<^verbatim>\<open>getNotices\<close>
  extracts: \<^verbatim>\<open>additionalDesc\<close> is present exactly when \<^verbatim>\<open>isBeingCorrected\<close> is true. In that
  case it is the short description with the first occurrence of the text of the correction
  marker removed, and then trimmed; when the marker text does not occur in the short
  description, which is trimmed while the marker text is not, nothing is removed.
\<close>

lemma dps_additionalDesc_when_corrected:
  assumes "getNotices ev (Reply r) = Inr ns"
    and "k < length (dynamicPurchasingSystems ns)"
    and "d = dynamicPurchasingSystems ns ! k"
    and "marker = marker_text (row_cells (dpsRows (load ev (data r)) ! k))"
  shows "((dps_additionalDesc d \<noteq> None) = dps_isBeingCorrected d) \<and>
         (\<forall>pre post.
            dps_isBeingCorrected d \<and> dps_shortDescription d = pre @ marker @ post \<and>
            (marker = [] \<or> \<not> sublist marker (pre @ butlast marker))
            \<longrightarrow> dps_additionalDesc d = Some (trim (pre @ post))) \<and>
         (dps_isBeingCorrected d \<and> \<not> sublist marker (dps_shortDescription d)
            \<longrightarrow> dps_additionalDesc d = Some (trim (dps_shortDescription d)))"
proof -
  have row: "dps_of_row ev (language ns) (dpsRows (load ev (data r)) ! k) = Inr d"
    using getNotices_dps_row [OF assms(1,2)] assms(3) by simp
  note a = dps_of_row_fields(1) [OF row, folded assms(4)]
  have first: "dps_additionalDesc d \<noteq> None \<longleftrightarrow> dps_isBeingCorrected d"
    using a by simp
  have second: "dps_additionalDesc d = Some (trim (pre @ post))"
    if "dps_isBeingCorrected d" "dps_shortDescription d = pre @ marker @ post"
      "marker = [] \<or> \<not> sublist marker (pre @ butlast marker)" for pre post
  proof (cases "marker = []")
    case True
    with that a show ?thesis
      by (simp add: replace_empty_pattern)
  next
    case False
    with that have "replace (pre @ marker @ post) marker [] = pre @ [] @ post"
      by (intro replace_first) auto
    with that a show ?thesis by simp
  qed
  have third: "dps_additionalDesc d = Some (trim (dps_shortDescription d))"
    if "dps_isBeingCorrected d" "\<not> sublist marker (dps_shortDescription d)"
    using that a by (simp add: replace_absent)
  from first second third show ?thesis by blast
qed

lemma dps_additionalDesc_example:
  "getNotices (example_env (\<lambda>b. correction_example True))
      (Reply \<lparr>status = 200, location = None, set_cookie = None, data = example_body\<rparr>) =
     Inr \<lparr>dynamicPurchasingSystems =
            [\<lparr>dps_id = Num 5, dps_customId = ''D-7'', dps_unit = ''Unit'', dps_title = ''Title'',
              dps_shortDescription = ''Korjattavana Cleaning'', dps_isBeingCorrected = True,
              dps_additionalDesc = Some ''Cleaning'',
              dps_deadline = Some ''1.2.2021 12:00:00'',
              dps_originalDeadline = Some ''1.2.2021 12:00:00''\<rparr>],
          notices_list =
            [\<lparr>notice_id = Num 5, notice_customId = ''K-1'', notice_unit = ''UnitX'',
              notice_flags = [''eu''], notice_title = ''Title'',
              notice_types = [], notice_shortDescription = [], notice_isBeingCorrected = False,
              notice_deadline = Some ''1.2.2021 12:00:00'',
              notice_originalDeadline = Some ''1.2.2021 12:00:00''\<rparr>],
          language = Fi\<rparr> \<and>
   marker_text (row_cells (dpsRows (correction_example True) ! 0)) = ''Korjattavana'' \<and>
   ''Korjattavana Cleaning'' = [] @ ''Korjattavana'' @ '' Cleaning'' \<and>
   \<not> sublist ''Korjattavana'' ([] @ butlast ''Korjattavana'') \<and>
   trim ([] @ '' Cleaning'') = ''Cleaning''"
proof -
  let ?ev = "example_env (\<lambda>b. correction_example True)"
  let ?r = "\<lparr>status = 200, location = None, set_cookie = None, data = example_body\<rparr>"
  let ?d = "\<lparr>dps_id = Num 5, dps_customId = ''D-7'', dps_unit = ''Unit'', dps_title = ''Title'',
              dps_shortDescription = ''Korjattavana Cleaning'', dps_isBeingCorrected = True,
              dps_additionalDesc = Some ''Cleaning'',
              dps_deadline = Some ''1.2.2021 12:00:00'',
              dps_originalDeadline = Some ''1.2.2021 12:00:00''\<rparr> :: string dps"
  note g = correction_example_notices [of True, simplified]
  have m: "''Korjattavana'' = marker_text (row_cells (dpsRows (load ?ev (data ?r)) ! 0))"
    by (simp add: example_env_def correction_example_marker)
  have n: "\<not> sublist ''Korjattavana'' ([] @ butlast ''Korjattavana'')"
    by (simp add: js_includes_sublist [symmetric])
  have "dps_isBeingCorrected ?d \<and> dps_shortDescription ?d = [] @ ''Korjattavana'' @ '' Cleaning'' \<and>
      (''Korjattavana'' = [] \<or> \<not> sublist ''Korjattavana'' ([] @ butlast ''Korjattavana''))"
    using n by simp
  with dps_additionalDesc_when_corrected [OF g, of 0 ?d "''Korjattavana''"] m
  have "dps_additionalDesc ?d = Some (trim ([] @ '' Cleaning''))"
    by (simp del: append_Nil)
  then have "trim ([] @ '' Cleaning'') = ''Cleaning''"
    by simp
  with g n show ?thesis
    by (simp add: correction_example_marker)
qed

lemma blank_marker_text:
  "marker_text (row_cells (dpsRows blank_marker_example ! 0)) = '' Korjattavana ''"
  unfolding blank_marker_example_def listing_page_rows
  by (simp add: dps_row_cells)
    (simp add: marker_text_def find_def descendants_def nth_sel_def sel_text_def has_class_def
      html_space_def)

text \<open>
  Claim C8 at a marker whose text has a blank on either side, followed by the description
  \<^verbatim>\<open>Cleaning\<close>. The row is being corrected and the short description is
  \<^verbatim>\<open>Korjattavana Cleaning\<close>. The code trims the cell text before the replacement but not
  the marker text, so the marker text, blanks included, does not occur in the short
  description: nothing is removed, and \<^verbatim>\<open>additionalDesc\<close> is the short description with the
  marker still in it, where the claim has \<^verbatim>\<open>Cleaning\<close>.
\<close>

theorem dps_marker_with_blanks_kept:
  "getNotices (example_env (\<lambda>b. blank_marker_example))
      (Reply \<lparr>status = 200, location = None, set_cookie = None, data = example_body\<rparr>) =
     Inr \<lparr>dynamicPurchasingSystems =
            [\<lparr>dps_id = Num 5, dps_customId = ''D-7'', dps_unit = ''Unit'', dps_title = ''Title'',
              dps_shortDescription = ''Korjattavana Cleaning'', dps_isBeingCorrected = True,
              dps_additionalDesc = Some ''Korjattavana Cleaning'',
              dps_deadline = Some ''1.2.2021 12:00:00'',
              dps_originalDeadline = Some ''1.2.2021 12:00:00''\<rparr>],
          notices_list =
            [\<lparr>notice_id = Num 5, notice_customId = ''K-1'', notice_unit = ''UnitX'',
              notice_flags = [''eu''], notice_title = ''Title'',
              notice_types = [], notice_shortDescription = [], notice_isBeingCorrected = False,
              notice_deadline = None, notice_originalDeadline = None\<rparr>],
          language = Fi\<rparr> \<and>
   marker_text (row_cells (dpsRows blank_marker_example ! 0)) = '' Korjattavana ''"
proof -
  have t: "trim ''UnitX'' = ''UnitX''" "trim ''K-1'' = ''K-1''" "trim ''Title'' = ''Title''"
    "trim '' Korjattavana Cleaning'' = ''Korjattavana Cleaning''"
    "trim ''Korjattavana Cleaning'' = ''Korjattavana Cleaning''"
    by (simp_all add: trim_def js_whitespace_def)
  have r: "replace ''Korjattavana Cleaning'' '' Korjattavana '' [] = ''Korjattavana Cleaning''"
    "replace ''Title'' ''K-1 / '' [] = ''Title''"
    by simp_all
  have "getNotices (example_env (\<lambda>b. blank_marker_example))
      (Reply \<lparr>status = 200, location = None, set_cookie = None, data = example_body\<rparr>) =
     Inr \<lparr>dynamicPurchasingSystems =
            [\<lparr>dps_id = Num 5, dps_customId = ''D-7'', dps_unit = ''Unit'', dps_title = ''Title'',
              dps_shortDescription = ''Korjattavana Cleaning'', dps_isBeingCorrected = True,
              dps_additionalDesc = Some ''Korjattavana Cleaning'',
              dps_deadline = Some ''1.2.2021 12:00:00'',
              dps_originalDeadline = Some ''1.2.2021 12:00:00''\<rparr>],
          notices_list =
            [\<lparr>notice_id = Num 5, notice_customId = ''K-1'', notice_unit = ''UnitX'',
              notice_flags = [''eu''], notice_title = ''Title'',
              notice_types = [], notice_shortDescription = [], notice_isBeingCorrected = False,
              notice_deadline = None, notice_originalDeadline = None\<rparr>],
          language = Fi\<rparr>"
    unfolding blank_marker_example_def listing_page_notices
    by (simp add: flag_eu t r trim_Nil del: replace.simps)
  with blank_marker_text show ?thesis by simp
qed

subsection \<open>A single notice\<close>

lemma getNotice_Inr:
  assumes "getNotice ev noticeId np dr ar = Inr nd"
  obtains p d a lc where "np = Reply p" "dr = Reply d" "ar = Reply a"
    "matchLocale (data p) = Inr lc"
    "notice_of_pages ev lc noticeId (load ev (data d)) (load ev (data a)) (load ev (data p))
       = Inr nd"
  using assms
  by (cases np; cases dr; cases ar)
    (auto simp: getNotice_def rejected_def split: if_splits sum.splits)

lemma notice_of_pages_deadline:
  assumes "notice_of_pages ev locale noticeId d a n = Inr nd"
  shows "(detail_deadline nd = None \<and> detail_originalDeadline nd = None) \<or>
         (\<exists>raw dl. detail_originalDeadline nd = Some raw \<and> detail_deadline nd = Some dl \<and>
            parseLocalizedDate ev raw locale = Inr dl)"
  using assms
  by (auto simp: notice_of_pages_def Let_def split: sum.splits if_splits)

lemma notice_of_pages_attachments:
  assumes "notice_of_pages ev locale noticeId d a n = Inr nd"
  shows "detail_attachments nd =
           map attachment_of_link (select (attr_contains ''a'' ''id'' ''TiedostoLinkki'') a)"
  using assms
  by (auto simp: notice_of_pages_def Let_def split: sum.splits if_splits)

subsection \<open>The example pages of a notice\<close>

lemmas page_sel_defs = select_def by_id_def attr_equals_def attr_contains_def sel_text_def

lemma details_page_fields:
  "sel_text (select (by_id ''valDueDate'') (details_page due)) = due"
  "sel_text (select (by_id ''valIlmPaiva'') (details_page due)) = ''1.1.2021 09:00:00''"
  "sel_text (select (by_id ''valHankTunniste'') (details_page due)) = []"
  "sel_text (select (by_id ''valHankYksMarkNimi'') (details_page due)) = []"
  "sel_text (select (by_id ''valHankNimi'') (details_page due)) = ''Title''"
  "sel_text (select (by_id ''valHankYksLuo'') (details_page due)) = []"
  "sel_text (select (by_id ''valHankLaj'') (details_page due)) = []"
  "select (by_id ''valKuvaus'') (details_page due) = []"
  by (simp_all add: page_sel_defs details_page_def)

lemma processing_page_fields:
  "select (attr_equals ''img'' ''align'' ''absmiddle'') (processing_page icon)
     = [Element ''img'' [(''align'', ''absmiddle''), (''src'', icon)] []]"
  "select (attr_contains ''span'' ''class'' ''harmaa'') (processing_page icon)
     = [Element ''span'' [(''class'', ''harmaa'')] [Text ''Tavarat'']]"
  by (simp_all add: page_sel_defs processing_page_def)

lemma attachments_page_fields:
  "select (attr_contains ''a'' ''id'' ''TiedostoLinkki'') (attachments_page href)
     = [Element ''a'' [(''id'', ''TiedostoLinkki0''), (''href'', href)] [Text ''spec.pdf'']]"
  "select (attr_contains ''a'' ''id'' ''HyperLink1'') (attachments_page href)
     = [Element ''a'' [(''id'', ''HyperLink1''), (''href'', ''https://example.org/'')] [Text ''more'']]"
  by (simp_all add: page_sel_defs attachments_page_def)

lemma notice_pages_load:
  "load (example_env (notice_pages icon due href)) ''details'' = details_page due"
  "load (example_env (notice_pages icon due href)) ''attachments'' = attachments_page href"
  "load (example_env (notice_pages icon due href)) example_body = processing_page icon"
  by (simp_all add: example_env_def notice_pages_def example_body_def)

lemma notice_pages_notice:
  "getNotice (example_env (notice_pages icon due href)) 7
      (Reply \<lparr>status = 200, location = None, set_cookie = None, data = example_body\<rparr>)
      (Reply \<lparr>status = 200, location = None, set_cookie = None, data = ''details''\<rparr>)
      (Reply \<lparr>status = 200, location = None, set_cookie = None, data = ''attachments''\<rparr>) =
     (case flag_of_icon_detail (Element ''img'' [(''align'', ''absmiddle''), (''src'', icon)] []) of
        Inl e \<Rightarrow> Inl e
      | Inr flag \<Rightarrow>
          Inr \<lparr>detail_id = 7, detail_customId = [],
               detail_published = ''1.1.2021 09:00:00'',
               detail_originalPublished = ''1.1.2021 09:00:00'',
               detail_deadline = (if due = [] then None else Some (split_head ''  (UTC'' due)),
               detail_originalDeadline = (if due = [] then None else Some (split_head ''  (UTC'' due)),
               detail_unit = [], detail_title = ''Title'', detail_flags = [flag],
               detail_types = [''Tavarat''], detail_description = None,
               detail_authorityType = [], detail_category = [],
               detail_attachments =
                 [\<lparr>fileName = ''spec.pdf'', fileUuid = Some (replace href download_path [])\<rparr>],
               detail_links = [''https://example.org/'']\<rparr>)"
  unfolding getNotice_def notice_of_pages_def
  by (simp add: rejected_def fulfilled_def example_locale notice_pages_load details_page_fields
      processing_page_fields attachments_page_fields example_parse Let_def attachment_of_link_def
      List.map_filter_def del: replace.simps split_head.simps split: sum.splits)

lemma flag_detail_eu:
  "flag_of_icon_detail (Element ''img'' [(''align'', ''absmiddle''), (''src'', ''ikoni_eu.gif'')] [])
     = Inr ''eu''"
  by (simp add: flag_of_icon_detail_def match_ikoni_gif_def match_group_def dot_gif_def
      line_terminator_def)

lemma flag_small_procurement:
  "flag_of_icon (Element ''img'' [(''src'', ''/images/pienhankinta_ikoni.png'')] [])
     = Inr ''pienhankinta''"
  "flag_of_icon_detail
     (Element ''img'' [(''align'', ''absmiddle''), (''src'', ''/images/pienhankinta_ikoni.png'')] [])
     = Inl FlagParseError"
  by (simp_all add: flag_of_icon_def flag_of_icon_detail_def match_ikoni_gif_def
      match_images_ikoni_def match_group_def dot_gif_def line_terminator_def)

lemma detail_example_notice:
  "getNotice (example_env (detail_example ''ikoni_eu.gif'')) 7
      (Reply \<lparr>status = 200, location = None, set_cookie = None, data = example_body\<rparr>)
      (Reply \<lparr>status = 200, location = None, set_cookie = None, data = ''details''\<rparr>)
      (Reply \<lparr>status = 200, location = None, set_cookie = None, data = ''attachments''\<rparr>) =
     Inr \<lparr>detail_id = 7, detail_customId = [],
          detail_published = ''1.1.2021 09:00:00'',
          detail_originalPublished = ''1.1.2021 09:00:00'',
          detail_deadline = Some ''1.2.2021 12:00:00'',
          detail_originalDeadline = Some ''1.2.2021 12:00:00'',
          detail_unit = [], detail_title = ''Title'', detail_flags = [''eu''],
          detail_types = [''Tavarat''], detail_description = None,
          detail_authorityType = [], detail_category = [],
          detail_attachments = [\<lparr>fileName = ''spec.pdf'', fileUuid = Some ''abc-123''\<rparr>],
          detail_links = [''https://example.org/'']\<rparr>"
proof -
  have s: "split_head ''  (UTC'' ''1.2.2021 12:00:00  (UTC+02:00)'' = ''1.2.2021 12:00:00''"
    by simp
  have r: "replace ''../Document/Open/?fileType=TarjPyynTied&id=abc-123'' download_path []
      = ''abc-123''"
    using replace_prefix [of download_path "''abc-123''" "[]"]
    by (simp add: download_path_def del: replace.simps)
  show ?thesis
    unfolding detail_example_def notice_pages_notice
    by (simp add: flag_detail_eu s r del: replace.simps split_head.simps)
qed

lemma icon_example_notices:
  "getNotices (example_env (\<lambda>b. icon_example ''/images/pienhankinta_ikoni.png''))
      (Reply \<lparr>status = 200, location = None, set_cookie = None, data = example_body\<rparr>) =
     Inr \<lparr>dynamicPurchasingSystems =
            [\<lparr>dps_id = Num 5, dps_customId = ''D-7'', dps_unit = ''Unit'', dps_title = ''Title'',
              dps_shortDescription = [], dps_isBeingCorrected = False,
              dps_additionalDesc = None,
              dps_deadline = Some ''1.2.2021 12:00:00'',
              dps_originalDeadline = Some ''1.2.2021 12:00:00''\<rparr>],
          notices_list =
            [\<lparr>notice_id = Num 5, notice_customId = ''K-1'', notice_unit = ''UnitX'',
              notice_flags = [''pienhankinta''], notice_title = ''Title'',
              notice_types = [], notice_shortDescription = [], notice_isBeingCorrected = False,
              notice_deadline = None, notice_originalDeadline = None\<rparr>],
          language = Fi\<rparr>"
proof -
  have t: "trim ''UnitX'' = ''UnitX''" "trim ''K-1'' = ''K-1''" "trim ''Title'' = ''Title''"
    by (simp_all add: trim_def js_whitespace_def)
  have r: "replace ''Title'' ''K-1 / '' [] = ''Title''"
    by simp
  show ?thesis
    unfolding icon_example_def listing_page_notices
    by (simp add: flag_small_procurement t r trim_Nil del: replace.simps)
qed

subsection \<open>Deadlines\<close>

text \<open>
  Claim C2. In every record of a dynamic purchasing system and every notice record that
  \<^verbatim>\<open>getNotices\<close> returns, and in the notice that \<^verbatim>\<open>getNotice\<close> returns, \<^verbatim>\<open>deadline\<close> and
  \<^verbatim>\<open>originalDeadline\<close> are both null or both present, and when present the deadline is the
  parsed raw string. (For a dynamic purchasing system they are always present.)
\<close>

theorem deadline_pairs:
  "(getNotices ev rp = Inr ns \<longrightarrow>
      (\<forall>d \<in> set (dynamicPurchasingSystems ns).
          \<exists>raw dl. dps_originalDeadline d = Some raw \<and> dps_deadline d = Some dl \<and>
             parseLocalizedDate ev raw (language ns) = Inr dl) \<and>
      (\<forall>n \<in> set (notices_list ns).
          (notice_deadline n = None \<and> notice_originalDeadline n = None) \<or>
          (\<exists>raw dl. notice_originalDeadline n = Some raw \<and> notice_deadline n = Some dl \<and>
             parseLocalizedDate ev raw (language ns) = Inr dl))) \<and>
   (getNotice ev noticeId np dr ar = Inr nd \<longrightarrow>
      (detail_deadline nd = None \<and> detail_originalDeadline nd = None) \<or>
      (\<exists>raw dl locale. detail_originalDeadline nd = Some raw \<and> detail_deadline nd = Some dl \<and>
         parseLocalizedDate ev raw locale = Inr dl))"
proof (intro conjI impI ballI)
  fix d
  assume g: "getNotices ev rp = Inr ns" and d: "d \<in> set (dynamicPurchasingSystems ns)"
  from g obtain r :: response where
    "map_throwing (dps_of_row ev (language ns)) (dpsRows (load ev (data r)))
       = Inr (dynamicPurchasingSystems ns)"
    by (auto elim!: getNotices_Inr)
  from map_throwing_set [OF this d] obtain tr where "dps_of_row ev (language ns) tr = Inr d"
    by blast
  then show "\<exists>raw dl. dps_originalDeadline d = Some raw \<and> dps_deadline d = Some dl \<and>
      parseLocalizedDate ev raw (language ns) = Inr dl"
    by (rule dps_of_row_fields(4))
next
  fix n
  assume g: "getNotices ev rp = Inr ns" and n: "n \<in> set (notices_list ns)"
  from g obtain r :: response where
    "map_throwing (notice_of_row ev (language ns)) (noticeRows (load ev (data r)))
       = Inr (notices_list ns)"
    by (auto elim!: getNotices_Inr)
  from map_throwing_set [OF this n] obtain tr where "notice_of_row ev (language ns) tr = Inr n"
    by blast
  then show "(notice_deadline n = None \<and> notice_originalDeadline n = None) \<or>
      (\<exists>raw dl. notice_originalDeadline n = Some raw \<and> notice_deadline n = Some dl \<and>
         parseLocalizedDate ev raw (language ns) = Inr dl)"
    by (rule notice_of_row_deadline)
next
  assume "getNotice ev noticeId np dr ar = Inr nd"
  then obtain p d a :: response and lc where
    "notice_of_pages ev lc noticeId (load ev (data d)) (load ev (data a)) (load ev (data p))
       = Inr nd"
    by (auto elim!: getNotice_Inr)
  from notice_of_pages_deadline [OF this]
  show "(detail_deadline nd = None \<and> detail_originalDeadline nd = None) \<or>
      (\<exists>raw dl locale. detail_originalDeadline nd = Some raw \<and> detail_deadline nd = Some dl \<and>
         parseLocalizedDate ev raw locale = Inr dl)"
    by blast
qed

theorem deadline_pairs_witness:
  "getNotices (example_env (\<lambda>b. correction_example True))
      (Reply \<lparr>status = 200, location = None, set_cookie = None, data = example_body\<rparr>) =
     Inr \<lparr>dynamicPurchasingSystems =
            [\<lparr>dps_id = Num 5, dps_customId = ''D-7'', dps_unit = ''Unit'', dps_title = ''Title'',
              dps_shortDescription = ''Korjattavana Cleaning'', dps_isBeingCorrected = True,
              dps_additionalDesc = Some ''Cleaning'',
              dps_deadline = Some ''1.2.2021 12:00:00'',
              dps_originalDeadline = Some ''1.2.2021 12:00:00''\<rparr>],
          notices_list =
            [\<lparr>notice_id = Num 5, notice_customId = ''K-1'', notice_unit = ''UnitX'',
              notice_flags = [''eu''], notice_title = ''Title'',
              notice_types = [], notice_shortDescription = [], notice_isBeingCorrected = False,
              notice_deadline = Some ''1.2.2021 12:00:00'',
              notice_originalDeadline = Some ''1.2.2021 12:00:00''\<rparr>],
          language = Fi\<rparr> \<and>
   parseLocalizedDate (example_env (\<lambda>b. correction_example True)) ''1.2.2021 12:00:00'' Fi
     = Inr ''1.2.2021 12:00:00'' \<and>
   getNotice (example_env (detail_example ''ikoni_eu.gif'')) 7
      (Reply \<lparr>status = 200, location = None, set_cookie = None, data = example_body\<rparr>)
      (Reply \<lparr>status = 200, location = None, set_cookie = None, data = ''details''\<rparr>)
      (Reply \<lparr>status = 200, location = None, set_cookie = None, data = ''attachments''\<rparr>) =
     Inr \<lparr>detail_id = 7, detail_customId = [],
          detail_published = ''1.1.2021 09:00:00'',
          detail_originalPublished = ''1.1.2021 09:00:00'',
          detail_deadline = Some ''1.2.2021 12:00:00'',
          detail_originalDeadline = Some ''1.2.2021 12:00:00'',
          detail_unit = [], detail_title = ''Title'', detail_flags = [''eu''],
          detail_types = [''Tavarat''], detail_description = None,
          detail_authorityType = [], detail_category = [],
          detail_attachments = [\<lparr>fileName = ''spec.pdf'', fileUuid = Some ''abc-123''\<rparr>],
          detail_links = [''https://example.org/'']\<rparr>"
proof -
  note g = correction_example_notices [of True, simplified]
  from deadline_pairs [THEN conjunct1, rule_format, OF g, THEN conjunct1]
  have "parseLocalizedDate (example_env (\<lambda>b. correction_example True)) ''1.2.2021 12:00:00'' Fi
     = Inr ''1.2.2021 12:00:00''"
    by simp
  with g detail_example_notice show ?thesis
    by simp
qed

subsection \<open>Attachments\<close>

text \<open>
  Claim C10. For every file link of the attachments page whose \<^verbatim>\<open>href\<close> is the download
  path followed by a uuid, the \<^verbatim>\<open>fileUuid\<close> that \<^verbatim>\<open>getNotice\<close> extracts is that uuid, and
  \<^verbatim>\<open>buildAttachmentLink\<close> of it is the absolute URL of the link.
\<close>

theorem fileUuid_roundtrip:
  assumes "getNotice ev noticeId np dr (Reply ar) = Inr nd"
    and "links = select (attr_contains ''a'' ''id'' ''TiedostoLinkki'') (load ev (data ar))"
    and "k < length links"
    and "attr ''href'' (links ! k) = Some (download_path @ u)"
  shows "length (detail_attachments nd) = length links \<and>
         fileUuid (detail_attachments nd ! k) = Some u \<and>
         buildAttachmentLink u = from_subdirectory (download_path @ u)"
proof -
  from assms(1) obtain p d :: response and lc where
    "notice_of_pages ev lc noticeId (load ev (data d)) (load ev (data ar)) (load ev (data p))
       = Inr nd"
    by (auto elim!: getNotice_Inr)
  from notice_of_pages_attachments [OF this] assms(2)
  have "detail_attachments nd = map attachment_of_link links"
    by simp
  with assms(3,4) have "length (detail_attachments nd) = length links"
    "fileUuid (detail_attachments nd ! k) = Some u"
    by (simp_all add: attachment_of_link_def replace_prefix del: replace.simps)
  moreover have "buildAttachmentLink u = from_subdirectory (download_path @ u)"
    by (simp add: buildAttachmentLink_def from_subdirectory_def download_path_def site_def)
  ultimately show ?thesis by simp
qed

theorem fileUuid_roundtrip_witness:
  "getNotice (example_env (detail_example ''ikoni_eu.gif'')) 7
      (Reply \<lparr>status = 200, location = None, set_cookie = None, data = example_body\<rparr>)
      (Reply \<lparr>status = 200, location = None, set_cookie = None, data = ''details''\<rparr>)
      (Reply \<lparr>status = 200, location = None, set_cookie = None, data = ''attachments''\<rparr>) =
     Inr \<lparr>detail_id = 7, detail_customId = [],
          detail_published = ''1.1.2021 09:00:00'',
          detail_originalPublished = ''1.1.2021 09:00:00'',
          detail_deadline = Some ''1.2.2021 12:00:00'',
          detail_originalDeadline = Some ''1.2.2021 12:00:00'',
          detail_unit = [], detail_title = ''Title'', detail_flags = [''eu''],
          detail_types = [''Tavarat''], detail_description = None,
          detail_authorityType = [], detail_category = [],
          detail_attachments = [\<lparr>fileName = ''spec.pdf'', fileUuid = Some ''abc-123''\<rparr>],
          detail_links = [''https://example.org/'']\<rparr> \<and>
   select (attr_contains ''a'' ''id'' ''TiedostoLinkki'')
       (load (example_env (detail_example ''ikoni_eu.gif'')) ''attachments'') =
     [Element ''a''
        [(''id'', ''TiedostoLinkki0''),
         (''href'', ''../Document/Open/?fileType=TarjPyynTied&id=abc-123'')]
        [Text ''spec.pdf'']] \<and>
   buildAttachmentLink ''abc-123'' =
     ''https://tarjouspalvelu.fi/Document/Open/?fileType=TarjPyynTied&id=abc-123''"
proof -
  let ?ar = "\<lparr>status = 200, location = None, set_cookie = None, data = ''attachments''\<rparr>"
  let ?link = "Element ''a''
        [(''id'', ''TiedostoLinkki0''),
         (''href'', ''../Document/Open/?fileType=TarjPyynTied&id=abc-123'')]
        [Text ''spec.pdf'']"
  have l: "select (attr_contains ''a'' ''id'' ''TiedostoLinkki'')
       (load (example_env (detail_example ''ikoni_eu.gif'')) ''attachments'') = [?link]"
    unfolding detail_example_def notice_pages_load attachments_page_fields ..
  have h: "attr ''href'' ([?link] ! 0) = Some (download_path @ ''abc-123'')"
    by (simp add: download_path_def)
  have "buildAttachmentLink ''abc-123'' = from_subdirectory (download_path @ ''abc-123'')"
    using fileUuid_roundtrip [OF detail_example_notice, of "[?link]" 0 "''abc-123''"] l h
    by simp
  then have "buildAttachmentLink ''abc-123'' =
      ''https://tarjouspalvelu.fi/Document/Open/?fileType=TarjPyynTied&id=abc-123''"
    by (simp add: from_subdirectory_def download_path_def site_def)
  with detail_example_notice l show ?thesis
    by simp
qed

subsection \<open>Flags\<close>

lemma flag_of_icon_error:
  "flag_of_icon el = Inl e \<longleftrightarrow>
     e = FlagParseError \<and> Option.bind (attr ''src'' el) match_ikoni_gif = None \<and>
     Option.bind (attr ''src'' el) match_images_ikoni = None"
  by (auto simp: flag_of_icon_def split: option.splits)

lemma flag_of_icon_detail_error:
  "flag_of_icon_detail el = Inl e \<longleftrightarrow>
     e = FlagParseError \<and> Option.bind (attr ''src'' el) match_ikoni_gif = None"
  by (auto simp: flag_of_icon_detail_def split: option.splits)

lemma notice_flags_complete:
  "notice_of_row ev lc tr = Inr n \<Longrightarrow>
     length (notice_flags n) = length (find (is_tag ''img'') (nth_sel (row_cells tr) 2))"
  by (auto simp: notice_of_row_def Let_def split: sum.splits if_splits
      dest: map_throwing_length)

lemma detail_flags_complete:
  "notice_of_pages ev lc noticeId d a n = Inr nd \<Longrightarrow>
     length (detail_flags nd) = length (select (attr_equals ''img'' ''align'' ''absmiddle'') n)"
  by (auto simp: notice_of_pages_def Let_def split: sum.splits if_splits
      dest: map_throwing_length)

text \<open>
  Claim C5 at the icon \<^verbatim>\<open>/images/pienhankinta_ikoni.png\<close>, which only the second pattern
  matches: \<^verbatim>\<open>getNotice\<close>, whose decoder has the first pattern only, fails with the flag
  error without trying the second pattern, while \<^verbatim>\<open>getNotices\<close> decodes the flag
  \<^verbatim>\<open>pienhankinta\<close> from the same icon.
\<close>

theorem getNotice_without_fallback:
  "getNotice (example_env (detail_example ''/images/pienhankinta_ikoni.png'')) 7
      (Reply \<lparr>status = 200, location = None, set_cookie = None, data = example_body\<rparr>)
      (Reply \<lparr>status = 200, location = None, set_cookie = None, data = ''details''\<rparr>)
      (Reply \<lparr>status = 200, location = None, set_cookie = None, data = ''attachments''\<rparr>)
     = Inl FlagParseError \<and>
   getNotices (example_env (\<lambda>b. icon_example ''/images/pienhankinta_ikoni.png''))
      (Reply \<lparr>status = 200, location = None, set_cookie = None, data = example_body\<rparr>) =
     Inr \<lparr>dynamicPurchasingSystems =
            [\<lparr>dps_id = Num 5, dps_customId = ''D-7'', dps_unit = ''Unit'', dps_title = ''Title'',
              dps_shortDescription = [], dps_isBeingCorrected = False,
              dps_additionalDesc = None,
              dps_deadline = Some ''1.2.2021 12:00:00'',
              dps_originalDeadline = Some ''1.2.2021 12:00:00''\<rparr>],
          notices_list =
            [\<lparr>notice_id = Num 5, notice_customId = ''K-1'', notice_unit = ''UnitX'',
              notice_flags = [''pienhankinta''], notice_title = ''Title'',
              notice_types = [], notice_shortDescription = [], notice_isBeingCorrected = False,
              notice_deadline = None, notice_originalDeadline = None\<rparr>],
          language = Fi\<rparr>"
  unfolding detail_example_def notice_pages_notice
  by (simp add: flag_small_procurement icon_example_notices)

subsection \<open>The company listing\<close>

lemma spacer_cell_iff:
  "spacer_cell c \<longleftrightarrow>
     attr ''style'' c = None \<or> attr ''style'' c = Some [] \<or>
     (\<exists>v. attr ''colspan'' c = Some v \<and> v \<noteq> [])"
  by (auto simp: spacer_cell_def truthy_def sel_attr_def split: option.splits)

lemma company_of_cell_valid:
  "valid_cell c \<Longrightarrow> logo_of (case sel_attr ''src'' (take 1 (find (is_tag ''img'') [c])) of None \<Rightarrow> [] | Some v \<Rightarrow> v) = Inr lg
     \<Longrightarrow> \<exists>x. company_of_cell logo_of c = Inr x"
  by (auto simp: valid_cell_def company_of_cell_def Let_def substr_def split: option.splits)

lemma companies_loop_length:
  "companies_loop f cells acc = Inr cs \<Longrightarrow>
     length cs = length acc + length (filter (\<lambda>c. \<not> spacer_cell c) cells)"
  by (induction cells arbitrary: acc) (auto split: if_splits sum.splits)

lemma companies_loop_records:
  "companies_loop f cells acc = Inr cs \<Longrightarrow>
     map_throwing f (filter (\<lambda>c. \<not> spacer_cell c) cells) = Inr (drop (length acc) cs) \<and>
     take (length acc) cs = acc"
proof (induction cells arbitrary: acc)
  case Nil
  then show ?case by simp
next
  case (Cons c cells)
  show ?case
  proof (cases "spacer_cell c")
    case True
    with Cons show ?thesis by simp
  next
    case False
    with Cons.prems obtain x where x: "f c = Inr x"
      and l: "companies_loop f cells (acc @ [x]) = Inr cs"
      by (auto split: sum.splits)
    from Cons.IH [OF l] have m: "map_throwing f (filter (\<lambda>c. \<not> spacer_cell c) cells)
        = Inr (drop (Suc (length acc)) cs)" and t: "take (Suc (length acc)) cs = acc @ [x]"
      by simp_all
    from t have "length acc < length cs"
      by (metis length_append_singleton length_take lessI min_less_iff_conj)
    with t have "drop (length acc) cs = x # drop (Suc (length acc)) cs" "take (length acc) cs = acc"
      by (metis Cons_nth_drop_Suc nth_append_length nth_take lessI,
          metis butlast_snoc butlast_take diff_Suc_1 length_take min.absorb2 Suc_leI less_imp_le_nat
            take_all_iff less_or_eq_imp_le)
    with False x m show ?thesis by simp
  qed
qed

lemma companies_loop_total:
  "(\<forall>c \<in> set cells. \<not> spacer_cell c \<longrightarrow> (\<exists>x. f c = Inr x)) \<Longrightarrow>
     \<exists>cs. companies_loop f cells acc = Inr cs"
  by (induction cells arbitrary: acc) (auto split: sum.splits)

lemma companies_page_cells:
  "select child_of_tr (companies_page attrs) = [Element ''td'' [] [], company_cell attrs]"
  by (simp add: select_def child_of_tr_def companies_page_def company_cell_def)

lemma company_cell_spacer:
  "spacer_cell (company_cell attrs) \<longleftrightarrow>
     \<not> truthy (map_of attrs ''style'') \<or> truthy (map_of attrs ''colspan'')"
  "spacer_cell (Element ''td'' [] [])"
  by (simp_all add: spacer_cell_def sel_attr_def company_cell_def truthy_def)

lemma company_cell_company: "company_of_cell (\<lambda>src. Inr None) (company_cell attrs) = Inr acme"
  by (simp add: company_of_cell_def company_cell_def find_def descendants_def sel_attr_def
      sel_text_def substr_def acme_def parseInt_def js_whitespace_def is_digit_def digit_val_def
      digit_table_def digits_value_def)

lemma company_cell_valid: "valid_cell (company_cell attrs)"
  by (simp add: valid_cell_def company_cell_def find_def descendants_def sel_attr_def)

lemma companies_page_companies:
  "getCompanies_part1 (example_env (\<lambda>b. companies_page attrs))
      (Reply \<lparr>status = 200, location = None, set_cookie = None, data = []\<rparr>) =
     Inr (if \<not> truthy (map_of attrs ''style'') \<or> truthy (map_of attrs ''colspan'') then []
          else [acme])"
proof -
  have l: "load (example_env (\<lambda>b. companies_page attrs)) [] = companies_page attrs"
    by (simp add: example_env_def)
  show ?thesis
    by (simp add: getCompanies_part1_def fulfilled_def l companies_page_cells company_cell_spacer
        company_cell_company)
qed

text \<open>
  What holds of \<^verbatim>\<open>getCompanies\<close>. The cells it skips are those whose \<^verbatim>\<open>style\<close> attribute is
  missing or empty and those whose \<^verbatim>\<open>colspan\<close> attribute is present and not empty (both tests
  are truthiness tests). Whenever it returns, it returns exactly one record for each cell it
  does not skip, and it does return when every such cell is a valid data cell. The listing
  with one spacer cell and the data cell of \<^verbatim>\<open>Acme Oy\<close> yields exactly the record with id 42,
  slug \<^verbatim>\<open>acme\<close> and name \<^verbatim>\<open>Acme Oy\<close>.
\<close>

lemma getCompanies_records:
  "(spacer_cell c \<longleftrightarrow>
      attr ''style'' c = None \<or> attr ''style'' c = Some [] \<or>
      (\<exists>v. attr ''colspan'' c = Some v \<and> v \<noteq> [])) \<and>
   (getCompanies_part1 ev rp = Inr cs \<longrightarrow>
      (\<exists>response. rp = Reply response \<and>
         length cs = length (filter (\<lambda>c. \<not> spacer_cell c)
                               (select child_of_tr (load ev (data response)))))) \<and>
   (getCompanies_part0 ev imageToBase64 getLogos rp = Inr cs \<longrightarrow>
      (\<exists>response. rp = Reply response \<and>
         length cs = length (filter (\<lambda>c. \<not> spacer_cell c)
                               (select child_of_tr (load ev (data response)))))) \<and>
   (fulfilled response \<and>
    (\<forall>c \<in> set (select child_of_tr (load ev (data response))). \<not> spacer_cell c \<longrightarrow> valid_cell c)
      \<longrightarrow> (\<exists>cs. getCompanies_part1 ev (Reply response) = Inr cs \<and>
                 getCompanies_part0 ev imageToBase64 False (Reply response) = Inr cs \<and>
                 length cs = length (filter (\<lambda>c. \<not> spacer_cell c)
                                      (select child_of_tr (load ev (data response)))))) \<and>
   getCompanies_part1 (example_env (\<lambda>b. companies_page [(''style'', ''width:25%'')]))
      (Reply \<lparr>status = 200, location = None, set_cookie = None, data = []\<rparr>) =
     Inr [\<lparr>company_id = Num 42, company_slug = ''acme'', company_name = ''Acme Oy'',
           company_logo = None\<rparr>]"
proof (intro conjI impI)
  show "spacer_cell c \<longleftrightarrow>
      attr ''style'' c = None \<or> attr ''style'' c = Some [] \<or>
      (\<exists>v. attr ''colspan'' c = Some v \<and> v \<noteq> [])"
    by (rule spacer_cell_iff)
next
  assume "getCompanies_part1 ev rp = Inr cs"
  then show "\<exists>response. rp = Reply response \<and>
         length cs = length (filter (\<lambda>c. \<not> spacer_cell c)
                               (select child_of_tr (load ev (data response))))"
    by (cases rp) (auto simp: getCompanies_part1_def split: if_splits dest: companies_loop_length)
next
  assume "getCompanies_part0 ev imageToBase64 getLogos rp = Inr cs"
  then show "\<exists>response. rp = Reply response \<and>
         length cs = length (filter (\<lambda>c. \<not> spacer_cell c)
                               (select child_of_tr (load ev (data response))))"
    by (cases rp) (auto simp: getCompanies_part0_def split: if_splits dest: companies_loop_length)
next
  let ?cells = "select child_of_tr (load ev (data response))"
  assume a: "fulfilled response \<and> (\<forall>c \<in> set ?cells. \<not> spacer_cell c \<longrightarrow> valid_cell c)"
  then have "\<forall>c \<in> set ?cells. \<not> spacer_cell c \<longrightarrow>
      (\<exists>x. company_of_cell (\<lambda>src. Inr None) c = Inr x)"
    by (auto intro: company_of_cell_valid)
  from companies_loop_total [OF this] obtain cs where
    cs: "companies_loop (company_of_cell (\<lambda>src. Inr None)) ?cells [] = Inr cs"
    by blast
  from a cs companies_loop_length [OF cs]
  show "\<exists>cs. getCompanies_part1 ev (Reply response) = Inr cs \<and>
      getCompanies_part0 ev imageToBase64 False (Reply response) = Inr cs \<and>
      length cs = length (filter (\<lambda>c. \<not> spacer_cell c) ?cells)"
    by (simp add: getCompanies_part1_def getCompanies_part0_def)
next
  show "getCompanies_part1 (example_env (\<lambda>b. companies_page [(''style'', ''width:25%'')]))
      (Reply \<lparr>status = 200, location = None, set_cookie = None, data = []\<rparr>) =
     Inr [\<lparr>company_id = Num 42, company_slug = ''acme'', company_name = ''Acme Oy'',
           company_logo = None\<rparr>]"
    using companies_page_companies [of "[(''style'', ''width:25%'')]"]
    by (simp add: truthy_def acme_def)
qed

text \<open>
  Claim C7 at a cell that carries \<^verbatim>\<open>colspan=""\<close> next to its style. The cell carries a
  \<^verbatim>\<open>colspan\<close> attribute, which by the claim (and by the comment above the test in the source)
  makes it a spacer, but the test is a truthiness test on the attribute's value: the cell
  is not skipped and the listing yields a record for it, in both versions. The same cell
  with \<^verbatim>\<open>colspan="2"\<close> is skipped.
\<close>

theorem getCompanies_empty_colspan:
  "attr ''colspan'' (company_cell [(''style'', ''width:25%''), (''colspan'', [])]) = Some [] \<and>
   select child_of_tr (companies_page [(''style'', ''width:25%''), (''colspan'', [])]) =
     [Element ''td'' [] [], company_cell [(''style'', ''width:25%''), (''colspan'', [])]] \<and>
   getCompanies_part1
      (example_env (\<lambda>b. companies_page [(''style'', ''width:25%''), (''colspan'', [])]))
      (Reply \<lparr>status = 200, location = None, set_cookie = None, data = []\<rparr>) =
     Inr [\<lparr>company_id = Num 42, company_slug = ''acme'', company_name = ''Acme Oy'',
           company_logo = None\<rparr>] \<and>
   getCompanies_part0
      (example_env (\<lambda>b. companies_page [(''style'', ''width:25%''), (''colspan'', [])]))
      (\<lambda>url. Inl AxiosError) False
      (Reply \<lparr>status = 200, location = None, set_cookie = None, data = []\<rparr>) =
     Inr [\<lparr>company_id = Num 42, company_slug = ''acme'', company_name = ''Acme Oy'',
           company_logo = None\<rparr>] \<and>
   getCompanies_part1
      (example_env (\<lambda>b. companies_page [(''style'', ''width:25%''), (''colspan'', ''2'')]))
      (Reply \<lparr>status = 200, location = None, set_cookie = None, data = []\<rparr>) = Inr []"
proof -
  have "getCompanies_part0
      (example_env (\<lambda>b. companies_page [(''style'', ''width:25%''), (''colspan'', [])]))
      (\<lambda>url. Inl AxiosError) False
      (Reply \<lparr>status = 200, location = None, set_cookie = None, data = []\<rparr>) = Inr [acme]"
    by (simp add: getCompanies_part0_def fulfilled_def example_env_load companies_page_cells
        company_cell_spacer company_cell_company truthy_def)
  then show ?thesis
    by (simp add: companies_page_companies companies_page_cells truthy_def acme_def)
      (simp add: company_cell_def)
qed

lemma getCompanies_records_example:
  "fulfilled \<lparr>status = 200, location = None, set_cookie = None, data = []\<rparr> \<and>
   select child_of_tr (companies_page [(''style'', ''width:25%'')]) =
     [Element ''td'' [] [], company_cell [(''style'', ''width:25%'')]] \<and>
   spacer_cell (Element ''td'' [] []) \<and>
   valid_cell (company_cell [(''style'', ''width:25%'')]) \<and>
   length (filter (\<lambda>c. \<not> spacer_cell c) (select child_of_tr (companies_page [(''style'', ''width:25%'')])))
     = 1 \<and>
   getCompanies_part1 (example_env (\<lambda>b. companies_page [(''style'', ''width:25%'')]))
      (Reply \<lparr>status = 200, location = None, set_cookie = None, data = []\<rparr>) =
     Inr [\<lparr>company_id = Num 42, company_slug = ''acme'', company_name = ''Acme Oy'',
           company_logo = None\<rparr>] \<and>
   getCompanies_part0 (example_env (\<lambda>b. companies_page [(''style'', ''width:25%'')]))
      (\<lambda>url. Inl AxiosError) False
      (Reply \<lparr>status = 200, location = None, set_cookie = None, data = []\<rparr>) =
     Inr [\<lparr>company_id = Num 42, company_slug = ''acme'', company_name = ''Acme Oy'',
           company_logo = None\<rparr>] \<and>
   getCompanies_part1 (example_env (\<lambda>b. companies_page [(''style'', ''width:25%''), (''colspan'', ''2'')]))
      (Reply \<lparr>status = 200, location = None, set_cookie = None, data = []\<rparr>) = Inr []"
proof -
  let ?ev = "example_env (\<lambda>b. companies_page [(''style'', ''width:25%'')]) :: string env"
  let ?r = "\<lparr>status = 200, location = None, set_cookie = None, data = []\<rparr>"
  have l: "load ?ev [] = companies_page [(''style'', ''width:25%'')]"
    by (simp add: example_env_def)
  have f: "fulfilled ?r"
    by (simp add: fulfilled_def)
  have s: "spacer_cell (Element ''td'' [] [])"
    "\<not> spacer_cell (company_cell [(''style'', ''width:25%'')])"
    by (simp_all add: company_cell_spacer truthy_def)
  have v: "\<forall>c \<in> set (select child_of_tr (load ?ev (data ?r))). \<not> spacer_cell c \<longrightarrow> valid_cell c"
    by (simp add: l companies_page_cells company_cell_valid s)
  have one: "getCompanies_part1 ?ev (Reply ?r) = Inr [acme]"
    using companies_page_companies [of "[(''style'', ''width:25%'')]"]
    by (simp add: truthy_def)
  from getCompanies_records [of _ ?ev _ _ _ _ ?r, THEN conjunct2, THEN conjunct2, THEN conjunct2,
      THEN conjunct1, rule_format, OF conjI, OF f v, of "\<lambda>url. Inl AxiosError"] one
  have "getCompanies_part0 ?ev (\<lambda>url. Inl AxiosError) False (Reply ?r) = Inr [acme]"
    by auto
  with one f s show ?thesis
    using companies_page_companies [of "[(''style'', ''width:25%''), (''colspan'', ''2'')]"]
    by (simp add: companies_page_cells company_cell_valid acme_def truthy_def)
qed

subsection \<open>Logging in\<close>

lemma login_post_part1_non_redirect:
  "\<not> redirect r \<Longrightarrow> login_post_part1 (Reply r) s = Inr s"
  by (auto simp: login_post_part1_def redirect_def)

lemma login_post_part0_non_redirect:
  "\<not> redirect r \<Longrightarrow>
     login_post_part0 (Reply r) s = (if fulfilled r then Inr s else Inl LoginFailed)"
  by (auto simp: login_post_part0_def redirect_def)

text \<open>
  What holds in both versions when the login POST receives a response that is not a
  redirect: the passed-in session object is left as it was, and, once the POST has been
  sent, the call fails with the login error when that session holds no token (or an empty
  one).
\<close>

lemma login_non_redirect:
  "(\<not> redirect r \<longrightarrow> snd (loginToSession_part1 get (Reply r) s) = s) \<and>
   (\<not> redirect r \<and> \<not> rejected get \<and> \<not> truthy (token s) \<longrightarrow>
      fst (loginToSession_part1 get (Reply r) s) = Inl LoginFailed) \<and>
   (\<not> redirect r \<longrightarrow>
      snd (loginToSession_part0 unesc head_s head_c get (Reply r) (Some s)) = Some s) \<and>
   (\<not> redirect r \<and> companySlugToId_part0 unesc head_c = Inr companyId \<and> \<not> rejected get \<and>
    \<not> truthy (token s) \<longrightarrow>
      fst (loginToSession_part0 unesc head_s head_c get (Reply r) (Some s)) = Inl LoginFailed)"
  by (auto simp: loginToSession_part1_def loginToSession_part0_def login_post_part1_non_redirect
      login_post_part0_non_redirect split: sum.splits)

lemma login_fresh_session_example:
  "\<not> redirect \<lparr>status = 200, location = None, set_cookie = None, data = []\<rparr> \<and>
   \<not> rejected (Reply \<lparr>status = 200, location = None, set_cookie = None, data = []\<rparr>) \<and>
   \<not> truthy (token \<lparr>uuid = ''u'', session_id = ''i'', token = None\<rparr>) \<and>
   companySlugToId_part0 (\<lambda>s. s)
     (Reply \<lparr>status = 302, location = Some ''/default.aspx?p=13&g=u'', set_cookie = None, data = []\<rparr>)
     = Inr (Num 13) \<and>
   loginToSession_part1
     (Reply \<lparr>status = 200, location = None, set_cookie = None, data = []\<rparr>)
     (Reply \<lparr>status = 200, location = None, set_cookie = None, data = []\<rparr>)
     \<lparr>uuid = ''u'', session_id = ''i'', token = None\<rparr>
     = (Inl LoginFailed, \<lparr>uuid = ''u'', session_id = ''i'', token = None\<rparr>) \<and>
   loginToSession_part0 (\<lambda>s. s) NoReply
     (Reply \<lparr>status = 302, location = Some ''/default.aspx?p=13&g=u'', set_cookie = None, data = []\<rparr>)
     (Reply \<lparr>status = 200, location = None, set_cookie = None, data = []\<rparr>)
     (Reply \<lparr>status = 200, location = None, set_cookie = None, data = []\<rparr>)
     (Some \<lparr>uuid = ''u'', session_id = ''i'', token = None\<rparr>)
     = (Inl LoginFailed, Some \<lparr>uuid = ''u'', session_id = ''i'', token = None\<rparr>)"
proof -
  let ?ok = "\<lparr>status = 200, location = None, set_cookie = None, data = []\<rparr>"
  let ?hd = "Reply \<lparr>status = 302, location = Some ''/default.aspx?p=13&g=u'', set_cookie = None,
    data = []\<rparr>"
  let ?s = "\<lparr>uuid = ''u'', session_id = ''i'', token = None\<rparr>"
  have a: "\<not> redirect ?ok" "\<not> rejected (Reply ?ok)" "\<not> truthy (token ?s)"
    by (simp_all add: redirect_def rejected_def fulfilled_def truthy_def)
  have c: "companySlugToId_part0 (\<lambda>s. s) ?hd = Inr (Num 13)"
    by (simp add: companySlugToId_part0_def slug_id_def companySlugToId_catch_def rejected_def
        fulfilled_def index_url_def substr_def qs_get_def qs_pairs_def truthy_num_def
        parseInt_def js_whitespace_def is_digit_def digit_val_def digit_table_def digits_value_def)
  note t = login_non_redirect [of ?ok "Reply ?ok" ?s "\<lambda>s. s" NoReply ?hd "Num 13"]
  from t a have "snd (loginToSession_part1 (Reply ?ok) (Reply ?ok) ?s) = ?s"
    "fst (loginToSession_part1 (Reply ?ok) (Reply ?ok) ?s) = Inl LoginFailed"
    by blast+
  then have one: "loginToSession_part1 (Reply ?ok) (Reply ?ok) ?s = (Inl LoginFailed, ?s)"
    by (simp add: prod_eq_iff)
  from t a c have "snd (loginToSession_part0 (\<lambda>s. s) NoReply ?hd (Reply ?ok) (Reply ?ok) (Some ?s)) = Some ?s"
    "fst (loginToSession_part0 (\<lambda>s. s) NoReply ?hd (Reply ?ok) (Reply ?ok) (Some ?s)) = Inl LoginFailed"
    by blast+
  then have two: "loginToSession_part0 (\<lambda>s. s) NoReply ?hd (Reply ?ok) (Reply ?ok) (Some ?s)
      = (Inl LoginFailed, Some ?s)"
    by (simp add: prod_eq_iff)
  from a c one two show ?thesis by simp
qed

text \<open>
  Claim C3 at a session that already holds a token. The login POST receives status 200, no
  redirect, and both versions return the session as a successful login, where the claim has
  the call fail with the login error. At status 500 the version that takes a company id still
  returns the session; the version that takes a slug throws the login error there (the
  \<^verbatim>\<open>else\<close> branch of its handler). The session is left as it was in every case.
\<close>

theorem loginToSession_stale_token:
  "loginToSession_part1
     (Reply \<lparr>status = 200, location = None, set_cookie = None, data = []\<rparr>)
     (Reply \<lparr>status = 200, location = None, set_cookie = None, data = []\<rparr>)
     \<lparr>uuid = ''u'', session_id = ''i'', token = Some ''old''\<rparr>
     = (Inr \<lparr>uuid = ''u'', session_id = ''i'', token = Some ''old''\<rparr>,
        \<lparr>uuid = ''u'', session_id = ''i'', token = Some ''old''\<rparr>) \<and>
   loginToSession_part1
     (Reply \<lparr>status = 200, location = None, set_cookie = None, data = []\<rparr>)
     (Reply \<lparr>status = 500, location = None, set_cookie = None, data = []\<rparr>)
     \<lparr>uuid = ''u'', session_id = ''i'', token = Some ''old''\<rparr>
     = (Inr \<lparr>uuid = ''u'', session_id = ''i'', token = Some ''old''\<rparr>,
        \<lparr>uuid = ''u'', session_id = ''i'', token = Some ''old''\<rparr>) \<and>
   loginToSession_part0 (\<lambda>s. s) NoReply
     (Reply \<lparr>status = 302, location = Some ''/default.aspx?p=13&g=u'', set_cookie = None, data = []\<rparr>)
     (Reply \<lparr>status = 200, location = None, set_cookie = None, data = []\<rparr>)
     (Reply \<lparr>status = 200, location = None, set_cookie = None, data = []\<rparr>)
     (Some \<lparr>uuid = ''u'', session_id = ''i'', token = Some ''old''\<rparr>)
     = (Inr \<lparr>uuid = ''u'', session_id = ''i'', token = Some ''old''\<rparr>,
        Some \<lparr>uuid = ''u'', session_id = ''i'', token = Some ''old''\<rparr>) \<and>
   loginToSession_part0 (\<lambda>s. s) NoReply
     (Reply \<lparr>status = 302, location = Some ''/default.aspx?p=13&g=u'', set_cookie = None, data = []\<rparr>)
     (Reply \<lparr>status = 200, location = None, set_cookie = None, data = []\<rparr>)
     (Reply \<lparr>status = 500, location = None, set_cookie = None, data = []\<rparr>)
     (Some \<lparr>uuid = ''u'', session_id = ''i'', token = Some ''old''\<rparr>)
     = (Inl LoginFailed, Some \<lparr>uuid = ''u'', session_id = ''i'', token = Some ''old''\<rparr>)"
proof -
  have c: "companySlugToId_part0 (\<lambda>s. s)
      (Reply \<lparr>status = 302, location = Some ''/default.aspx?p=13&g=u'', set_cookie = None,
         data = []\<rparr>) = Inr (Num 13)"
    by (simp add: companySlugToId_part0_def slug_id_def companySlugToId_catch_def rejected_def
        fulfilled_def index_url_def substr_def qs_get_def qs_pairs_def truthy_num_def
        parseInt_def js_whitespace_def is_digit_def digit_val_def digit_table_def digits_value_def)
  show ?thesis
    by (simp add: loginToSession_part1_def loginToSession_part0_def login_post_part1_def
        login_post_part0_def c rejected_def fulfilled_def truthy_def)
qed

subsection \<open>Setting the language\<close>

lemma language_mismatch:
  assumes "\<not> rejected get" and "status r = 302" and "culture_of_cookies r = Inr c"
    and "c \<noteq> language_tag lang"
  shows "setSessionLanguage_part1 get (Reply r) lang s = Inl LanguageMismatch"
    and "setSessionLanguage_part0 get (Reply r) lang s = Inl LanguageMismatch"
  using assms
  by (auto simp: setSessionLanguage_part1_def setSessionLanguage_part0_def language_confirmed_def
      fulfilled_def)

text \<open>
  Claim C4 at a POST that receives status 200, and at one that receives status 500: no
  redirect, and both versions return the session at status 200; the version with a company
  id returns it at status 500 too, where the other version throws.
\<close>

theorem setSessionLanguage_non_redirect:
  "setSessionLanguage_part1
     (Reply \<lparr>status = 200, location = None, set_cookie = None, data = body\<rparr>)
     (Reply \<lparr>status = 200, location = None, set_cookie = None, data = body'\<rparr>) lang s = Inr s \<and>
   setSessionLanguage_part0
     (Reply \<lparr>status = 200, location = None, set_cookie = None, data = body\<rparr>)
     (Reply \<lparr>status = 200, location = None, set_cookie = None, data = body'\<rparr>) lang s = Inr s \<and>
   setSessionLanguage_part1
     (Reply \<lparr>status = 200, location = None, set_cookie = None, data = body\<rparr>)
     (Reply \<lparr>status = 500, location = None, set_cookie = None, data = body'\<rparr>) lang s = Inr s \<and>
   setSessionLanguage_part0
     (Reply \<lparr>status = 200, location = None, set_cookie = None, data = body\<rparr>)
     (Reply \<lparr>status = 500, location = None, set_cookie = None, data = body'\<rparr>) lang s
     = Inl (Error ''Error setting the language, invalid session?'')"
  by (simp add: setSessionLanguage_part1_def setSessionLanguage_part0_def rejected_def
      fulfilled_def)

subsection \<open>Resolving a slug\<close>

lemma qs_get_error: "qs_get unesc q key = Inl e \<Longrightarrow> e = TypeError"
  by (auto simp: qs_get_def split: list.splits)

lemma companySlugToId_part0_invalid:
  "companySlugToId_part0 unesc rp = Inl InvalidSlug \<longleftrightarrow>
     (\<exists>r. rp = Reply r \<and> \<not> fulfilled r \<and> location r = Some index_url)"
  by (cases rp)
    (auto simp: companySlugToId_part0_def slug_id_def companySlugToId_catch_def rejected_def
      InvalidSlug_def SessionAcquisitionFailed_def
      split: sum.splits option.splits if_splits dest: qs_get_error)

lemma companySlugToId_part1_invalid:
  "companySlugToId_part1 unesc rp = Inl InvalidSlug \<longleftrightarrow>
     (\<exists>r. rp = Reply r \<and> \<not> fulfilled r \<and> location r = Some index_url)"
  by (cases rp)
    (auto simp: companySlugToId_part1_def slug_id_def companySlugToId_catch_def rejected_def
      InvalidSlug_def split: sum.splits option.splits if_splits dest: qs_get_error)

lemma companySlugToId_part0_no_redirect:
  "\<not> rejected rp \<Longrightarrow> companySlugToId_part0 unesc rp = Inl SessionAcquisitionFailed"
  by (simp add: companySlugToId_part0_def slug_id_def truthy_num_def)

lemma companySlugToId_part0_number:
  "companySlugToId_part0 unesc rp = Inr n \<Longrightarrow> \<exists>i. n = Num i \<and> i \<noteq> 0"
  by (auto simp: companySlugToId_part0_def truthy_num_def
      split: sum.splits option.splits if_splits jsnum.splits)

text \<open>
  Claim C6 at a HEAD that receives status 200 (no redirect) and at a redirect whose
  parameter \<^verbatim>\<open>p\<close> is not a number: the version that returns \<^verbatim>\<open>id\<close> unchecked returns
  \<^verbatim>\<open>undefined\<close> and \<^verbatim>\<open>NaN\<close>, where the version with the check fails. A redirect with a
  numeric parameter gives the id.
\<close>

theorem companySlugToId_unchecked:
  "companySlugToId_part1 unesc
     (Reply \<lparr>status = 200, location = None, set_cookie = None, data = []\<rparr>) = Inr None \<and>
   companySlugToId_part1 (\<lambda>s. s)
     (Reply \<lparr>status = 302, location = Some ''/default.aspx?p=abc&g=u'', set_cookie = None, data = []\<rparr>)
     = Inr (Some NaN) \<and>
   companySlugToId_part0 unesc
     (Reply \<lparr>status = 200, location = None, set_cookie = None, data = []\<rparr>)
     = Inl SessionAcquisitionFailed \<and>
   companySlugToId_part0 (\<lambda>s. s)
     (Reply \<lparr>status = 302, location = Some ''/default.aspx?p=abc&g=u'', set_cookie = None, data = []\<rparr>)
     = Inl SessionAcquisitionFailed \<and>
   companySlugToId_part1 (\<lambda>s. s)
     (Reply \<lparr>status = 302, location = Some ''/default.aspx?p=13&g=u'', set_cookie = None, data = []\<rparr>)
     = Inr (Some (Num 13))"
  by (simp add: companySlugToId_part1_def companySlugToId_part0_def slug_id_def
      companySlugToId_catch_def rejected_def fulfilled_def index_url_def substr_def qs_get_def
      qs_pairs_def truthy_num_def parseInt_def js_whitespace_def is_digit_def digit_val_def
      digit_table_def digits_value_def)

subsection \<open>Tender removal\<close>

lemma removeTender_string_body:
  "JSON_parse (data r) = None \<Longrightarrow>
     removeTender JSON_parse (Reply r) =
       (if fulfilled r \<and> \<not> sublist error_marker (data r) then Inr ()
        else Inl TenderRemovalFailed)"
  by (simp add: removeTender_def rejected_def response_data_def data_includes_def
      js_includes_sublist)

lemma removeTender_object_body:
  "fulfilled r \<Longrightarrow> JSON_parse (data r) = Some (JObject kvs) \<Longrightarrow>
     removeTender JSON_parse (Reply r) = Inl TypeError"
  by (simp add: removeTender_def rejected_def response_data_def data_includes_def)

lemma removeTender_rejected:
  "rejected post \<Longrightarrow> removeTender JSON_parse post = Inl TenderRemovalFailed"
  by (simp add: removeTender_def)

text \<open>
  Claim C9 at a fulfilled POST whose body is the marker \<^verbatim>\<open>{"error":true}\<close> itself, and at one
  whose body is \<^verbatim>\<open>[{"error":true}]\<close>. Both bodies are JSON and contain the marker. The first
  arrives as an object, on which \<^verbatim>\<open>includes\<close> is not a function: the call fails with a
  \<open>TypeError\<close>, not with the tender-removal error. The second arrives as an array that has no
  element equal to the marker string: the call completes. The body \<^verbatim>\<open>{"error":false}\<close> fails
  like the first. On a body that is not JSON the marker is found.
\<close>

theorem removeTender_parsed_body:
  \<open>removeTender example_json
     (Reply \<lparr>status = 200, location = None, set_cookie = None, data = ''{"error":true}''\<rparr>)
     = Inl TypeError \<and>
   removeTender example_json
     (Reply \<lparr>status = 200, location = None, set_cookie = None, data = ''[{"error":true}]''\<rparr>)
     = Inr () \<and>
   sublist error_marker ''[{"error":true}]'' \<and>
   removeTender example_json
     (Reply \<lparr>status = 200, location = None, set_cookie = None, data = ''{"error":false}''\<rparr>)
     = Inl TypeError \<and>
   removeTender example_json
     (Reply \<lparr>status = 200, location = None, set_cookie = None, data = ''x{"error":true}''\<rparr>)
     = Inl TenderRemovalFailed\<close>
proof -
  have \<open>sublist error_marker ''[{"error":true}]''\<close>
    by (simp add: js_includes_sublist [symmetric] error_marker_def)
  then show ?thesis
    by (simp add: removeTender_def rejected_def fulfilled_def response_data_def data_includes_def
        example_json_def error_marker_def)
qed

end
